theory Spec2Isabelle
  imports Main "HOL-Library.Sublist"
begin

section \<open>Strings\<close>

text \<open>
  A JavaScript string is modelled by its UTF-8 bytes (\<^typ>\<open>string\<close>). The source's
  template literals that span several lines are written without the line breaks and the
  indentation between tags; the three glyphs of the source that are not ASCII (the back
  arrow, the send arrow and the handshake) are written as the bytes the source file holds.
\<close>

fun join :: "string \<Rightarrow> string list \<Rightarrow> string" where
  "join sep [] = []"
| "join sep [x] = x"
| "join sep (x # y # ys) = x @ sep @ join sep (y # ys)"

fun decimal :: "nat \<Rightarrow> string" where
  "decimal n = (if n < 10 then [''0123456789'' ! n]
                else decimal (n div 10) @ [''0123456789'' ! (n mod 10)])"

declare decimal.simps [simp del]

definition decimal_int :: "int \<Rightarrow> string" where
  "decimal_int i = (if i < 0 then ''-'' @ decimal (nat (- i)) else decimal (nat i))"

text \<open>
  \<open>String.prototype.trim\<close> removes the WhiteSpace and LineTerminator code points of
  ECMAScript from both ends: U+0009..U+000D, U+0020, U+00A0, U+1680, U+2000..U+200A,
  U+2028, U+2029, U+202F, U+205F, U+3000, U+FEFF, here in UTF-8.
\<close>

definition whitespace :: "string list" where
  "whitespace =
    [[CHR 0x09], [CHR 0x0A], [CHR 0x0B], [CHR 0x0C], [CHR 0x0D], [CHR 0x20],
     [CHR 0xC2, CHR 0xA0], [CHR 0xE1, CHR 0x9A, CHR 0x80],
     [CHR 0xE2, CHR 0x80, CHR 0x80], [CHR 0xE2, CHR 0x80, CHR 0x81],
     [CHR 0xE2, CHR 0x80, CHR 0x82], [CHR 0xE2, CHR 0x80, CHR 0x83],
     [CHR 0xE2, CHR 0x80, CHR 0x84], [CHR 0xE2, CHR 0x80, CHR 0x85],
     [CHR 0xE2, CHR 0x80, CHR 0x86], [CHR 0xE2, CHR 0x80, CHR 0x87],
     [CHR 0xE2, CHR 0x80, CHR 0x88], [CHR 0xE2, CHR 0x80, CHR 0x89],
     [CHR 0xE2, CHR 0x80, CHR 0x8A], [CHR 0xE2, CHR 0x80, CHR 0xA8],
     [CHR 0xE2, CHR 0x80, CHR 0xA9], [CHR 0xE2, CHR 0x80, CHR 0xAF],
     [CHR 0xE2, CHR 0x81, CHR 0x9F], [CHR 0xE3, CHR 0x80, CHR 0x80],
     [CHR 0xEF, CHR 0xBB, CHR 0xBF]]"

text \<open>\<open>strip ps s\<close> removes from the front of \<open>s\<close> every leading occurrence of a pattern of \<open>ps\<close>.\<close>

function strip :: "string list \<Rightarrow> string \<Rightarrow> string" where
  "strip ps s =
     (case find (\<lambda>p. p \<noteq> [] \<and> prefix p s) ps of
        None \<Rightarrow> s
      | Some p \<Rightarrow> strip ps (drop (length p) s))"
  by pat_completeness auto
termination
proof (relation "measure (\<lambda>(ps, s). length s)")
  show "wf (measure (\<lambda>(ps, s). length s))" by simp
next
  fix ps :: "string list" and s p :: string
  assume "find (\<lambda>p. p \<noteq> [] \<and> prefix p s) ps = Some p"
  then have "p \<noteq> []" and "prefix p s"
    by (auto simp: find_Some_iff)
  then have "0 < length p" and "length p \<le> length s"
    by (auto simp: prefix_def)
  then show "((ps, drop (length p) s), (ps, s)) \<in> measure (\<lambda>(ps, s). length s)"
    by (cases p) auto
qed

declare strip.simps [simp del]

definition trim :: "string \<Rightarrow> string" where
  "trim s = rev (strip (map rev whitespace) (rev (strip whitespace s)))"

text \<open>The regular expression \<open>/^\d{8}$/\<close>: eight characters, each one of \<open>0\<close>..\<open>9\<close>.\<close>

definition is_digit :: "char \<Rightarrow> bool" where
  "is_digit c = (48 \<le> (of_char c :: nat) \<and> (of_char c :: nat) \<le> 57)"

definition eight_digits :: "string \<Rightarrow> bool" where
  "eight_digits s = (length s = 8 \<and> list_all is_digit s)"

text \<open>\<open>String.prototype.replace\<close> with a one-character pattern: the first occurrence only.\<close>

fun replace_first :: "char \<Rightarrow> char \<Rightarrow> string \<Rightarrow> string" where
  "replace_first a b [] = []"
| "replace_first a b (c # cs) = (if c = a then b # cs else c # replace_first a b cs)"

text \<open>\<open>JSON.stringify\<close> of a string, and of an array of strings.\<close>

definition escape_char :: "char \<Rightarrow> string" where
  "escape_char c =
     (if c = CHR 0x22 then [CHR 0x5C, CHR 0x22]
      else if c = CHR 0x5C then [CHR 0x5C, CHR 0x5C]
      else if c = CHR 0x08 then [CHR 0x5C, CHR ''b'']
      else if c = CHR 0x0C then [CHR 0x5C, CHR ''f'']
      else if c = CHR 0x0A then [CHR 0x5C, CHR ''n'']
      else if c = CHR 0x0D then [CHR 0x5C, CHR ''r'']
      else if c = CHR 0x09 then [CHR 0x5C, CHR ''t'']
      else if (of_char c :: nat) < 32
        then [CHR 0x5C, CHR ''u'', CHR ''0'', CHR ''0'',
              ''0123456789abcdef'' ! ((of_char c :: nat) div 16),
              ''0123456789abcdef'' ! ((of_char c :: nat) mod 16)]
      else [c])"

definition json_quote :: "string \<Rightarrow> string" where
  "json_quote s = [CHR 0x22] @ concat (map escape_char s) @ [CHR 0x22]"

definition stringify_args :: "string list \<Rightarrow> string" where
  "stringify_args args = ''['' @ join '','' (map json_quote args) @ '']''"

section \<open>Values and errors\<close>

text \<open>
  The values a response body parses to. Numbers are integers: a JSON number with a
  fraction or an exponent is outside the model. \<open>undefined\<close> is \<open>None\<close>.
\<close>

datatype json =
    JNull
  | JBool bool
  | JNum int
  | JStr string
  | JArr "json list"
  | JObj "(string \<times> json) list"

type_synonym jsval = "json option"

datatype js_error = JsError string | JsTypeError string | JsSyntaxError string

fun message :: "js_error \<Rightarrow> string" where
  "message (JsError m) = m"
| "message (JsTypeError m) = m"
| "message (JsSyntaxError m) = m"

text \<open>Sequencing of expressions that may throw.\<close>

definition and_then :: "js_error + 'a \<Rightarrow> ('a \<Rightarrow> js_error + 'b) \<Rightarrow> js_error + 'b" where
  "and_then r f = (case r of Inl e \<Rightarrow> Inl e | Inr x \<Rightarrow> f x)"

fun first_error :: "(js_error + 'a) list \<Rightarrow> js_error + 'a list" where
  "first_error [] = Inr []"
| "first_error (r # rs) =
     and_then r (\<lambda>y. and_then (first_error rs) (\<lambda>ys. Inr (y # ys)))"

text \<open>The elements are evaluated in order; the first one that throws ends the evaluation.\<close>

definition map_all :: "('a \<Rightarrow> js_error + 'b) \<Rightarrow> 'a list \<Rightarrow> js_error + 'b list" where
  "map_all f xs = first_error (map f xs)"

text \<open>
  String conversion, as a template literal and \<open>new Error(x)\<close> perform it. An object
  parsed from JSON converts to \<open>[object Object]\<close>, unless it has a member named
  \<open>toString\<close>, which hides the inherited method and is not callable: then the
  conversion throws. \<open>Array.prototype.join\<close> writes \<open>null\<close> as the empty string.
\<close>

fun to_string :: "json \<Rightarrow> js_error + string" where
  "to_string JNull = Inr ''null''"
| "to_string (JBool b) = Inr (if b then ''true'' else ''false'')"
| "to_string (JNum i) = Inr (decimal_int i)"
| "to_string (JStr s) = Inr s"
| "to_string (JArr xs) =
     and_then (first_error (map (\<lambda>x. if x = JNull then Inr [] else to_string x) xs))
       (\<lambda>ys. Inr (join '','' ys))"
| "to_string (JObj kvs) =
     (if map_of kvs ''toString'' = None then Inr ''[object Object]''
      else Inl (JsTypeError ''Cannot convert object to primitive value''))"

definition to_str :: "jsval \<Rightarrow> js_error + string" where
  "to_str v = (case v of None \<Rightarrow> Inr ''undefined'' | Some j \<Rightarrow> to_string j)"

definition truthy :: "jsval \<Rightarrow> bool" where
  "truthy v =
     (case v of
        None \<Rightarrow> False
      | Some JNull \<Rightarrow> False
      | Some (JBool b) \<Rightarrow> b
      | Some (JNum i) \<Rightarrow> i \<noteq> 0
      | Some (JStr s) \<Rightarrow> s \<noteq> []
      | Some _ \<Rightarrow> True)"

text \<open>\<open>a || b\<close>\<close>

definition or_else :: "jsval \<Rightarrow> jsval \<Rightarrow> jsval" where
  "or_else a b = (if truthy a then a else b)"

text \<open>
  \<open>a === b\<close> for two values from different responses: primitives are compared by value,
  and two arrays or two objects are never the same object.
\<close>

definition strict_eq :: "jsval \<Rightarrow> jsval \<Rightarrow> bool" where
  "strict_eq a b =
     (case (a, b) of
        (None, None) \<Rightarrow> True
      | (Some JNull, Some JNull) \<Rightarrow> True
      | (Some (JBool x), Some (JBool y)) \<Rightarrow> x = y
      | (Some (JNum x), Some (JNum y)) \<Rightarrow> x = y
      | (Some (JStr x), Some (JStr y)) \<Rightarrow> x = y
      | _ \<Rightarrow> False)"

text \<open>
  \<open>v.name\<close> for the data properties the source reads (none of them is \<open>length\<close> or a
  method): a \<open>TypeError\<close> on \<open>null\<close> and \<open>undefined\<close>, the member of an object,
  \<open>undefined\<close> on everything else. The messages are V8's.
\<close>

definition get :: "jsval \<Rightarrow> string \<Rightarrow> js_error + jsval" where
  "get v name =
     (case v of
        None \<Rightarrow> Inl (JsTypeError
          (''Cannot read properties of undefined (reading '' @ [CHR 0x27] @ name @ [CHR 0x27] @ '')''))
      | Some JNull \<Rightarrow> Inl (JsTypeError
          (''Cannot read properties of null (reading '' @ [CHR 0x27] @ name @ [CHR 0x27] @ '')''))
      | Some (JObj kvs) \<Rightarrow> Inr (map_of kvs name)
      | Some _ \<Rightarrow> Inr None)"

text \<open>\<open>const { name } = v\<close>, where \<open>source\<close> is how V8 names the right-hand side.\<close>

definition destructure :: "string \<Rightarrow> jsval \<Rightarrow> string \<Rightarrow> js_error + jsval" where
  "destructure source v name =
     (case v of
        None \<Rightarrow> Inl (JsTypeError
          (''Cannot destructure property '' @ [CHR 0x27] @ name @ [CHR 0x27] @ '' of '' @
           [CHR 0x27] @ source @ [CHR 0x27] @ '' as it is undefined.''))
      | Some JNull \<Rightarrow> Inl (JsTypeError
          (''Cannot destructure property '' @ [CHR 0x27] @ name @ [CHR 0x27] @ '' of '' @
           [CHR 0x27] @ source @ [CHR 0x27] @ '' as it is null.''))
      | _ \<Rightarrow> get v name)"

text \<open>\<open>v.length === 0\<close>\<close>

definition length_is_0 :: "jsval \<Rightarrow> js_error + bool" where
  "length_is_0 v =
     (case v of
        Some (JArr xs) \<Rightarrow> Inr (xs = [])
      | Some (JStr s) \<Rightarrow> Inr (s = [])
      | _ \<Rightarrow> and_then (get v ''length'') (\<lambda>l. Inr (strict_eq l (Some (JNum 0)))))"

text \<open>\<open>v.map(f).join('')\<close>, where \<open>expr\<close> is the text of the expression \<open>v\<close>.\<close>

definition map_join :: "string \<Rightarrow> (json \<Rightarrow> js_error + string) \<Rightarrow> jsval \<Rightarrow> js_error + string" where
  "map_join expr f v =
     (case v of
        Some (JArr xs) \<Rightarrow> and_then (map_all f xs) (\<lambda>ys. Inr (concat ys))
      | _ \<Rightarrow> and_then (get v ''map'')
               (\<lambda>_. Inl (JsTypeError (expr @ ''.map is not a function''))))"

text \<open>
  \<open>v > 0\<close>. The operand is converted to a number first. For a string that is
  StringToNumber: after trimming, the empty string is 0, a leading \<open>-\<close> never gives a
  positive number, \<open>Infinity\<close> is positive, a literal with the prefix \<open>0x\<close>, \<open>0o\<close> or
  \<open>0b\<close> is positive when one of its digits is not 0, and a decimal literal with the digits
  \<open>m\<close> and the decimal exponent \<open>k\<close> is positive when \<open>m * 10 ^ k\<close> does not round to
  zero, that is when it exceeds \<open>2 ^ -1075\<close>, half the smallest positive double.
\<close>

definition digits_value :: "string \<Rightarrow> int" where
  "digits_value s = foldl (\<lambda>a c. 10 * a + ((of_char c :: int) - 48)) 0 s"

definition all_in :: "string \<Rightarrow> string \<Rightarrow> bool" where
  "all_in alphabet s = (s \<noteq> [] \<and> list_all (\<lambda>c. c \<in> set alphabet) s)"

definition some_nonzero :: "string \<Rightarrow> bool" where
  "some_nonzero s = list_ex (\<lambda>c. c \<noteq> CHR ''0'') s"

definition signed_integer :: "string \<Rightarrow> int option" where
  "signed_integer s =
     (case s of
        [] \<Rightarrow> None
      | c # cs \<Rightarrow>
          if c = CHR ''-'' then (if all_in ''0123456789'' cs then Some (- digits_value cs) else None)
          else if c = CHR ''+'' then (if all_in ''0123456789'' cs then Some (digits_value cs) else None)
          else (if all_in ''0123456789'' s then Some (digits_value s) else None))"

definition positive_decimal :: "string \<Rightarrow> bool" where
  "positive_decimal u =
     (let mantissa = takeWhile (\<lambda>c. c \<noteq> CHR ''e'' \<and> c \<noteq> CHR ''E'') u;
          erest = dropWhile (\<lambda>c. c \<noteq> CHR ''e'' \<and> c \<noteq> CHR ''E'') u;
          exponent = (if erest = [] then Some 0 else signed_integer (tl erest));
          ip = takeWhile (\<lambda>c. c \<noteq> CHR ''.'') mantissa;
          frest = dropWhile (\<lambda>c. c \<noteq> CHR ''.'') mantissa;
          fp = (if frest = [] then [] else tl frest);
          wellformed = (list_all is_digit ip \<and> list_all is_digit fp \<and>
                        (if frest = [] then ip \<noteq> [] else ip \<noteq> [] \<or> fp \<noteq> []))
      in case exponent of
           None \<Rightarrow> False
         | Some x \<Rightarrow>
             wellformed \<and>
             (let m = digits_value (ip @ fp); k = x - int (length fp)
              in 0 < m \<and> (0 \<le> k \<or> 10 ^ nat (- k) < m * 2 ^ 1075)))"

definition positive_numeral :: "string \<Rightarrow> bool" where
  "positive_numeral s =
     (let t = trim s in
      if t = [] then False
      else if hd t = CHR ''-'' then False
      else if hd t = CHR ''+'' then (tl t = ''Infinity'' \<or> positive_decimal (tl t))
      else if take 2 t = ''0x'' \<or> take 2 t = ''0X''
        then all_in ''0123456789abcdefABCDEF'' (drop 2 t) \<and> some_nonzero (drop 2 t)
      else if take 2 t = ''0o'' \<or> take 2 t = ''0O''
        then all_in ''01234567'' (drop 2 t) \<and> some_nonzero (drop 2 t)
      else if take 2 t = ''0b'' \<or> take 2 t = ''0B''
        then all_in ''01'' (drop 2 t) \<and> some_nonzero (drop 2 t)
      else t = ''Infinity'' \<or> positive_decimal t)"

definition gt_zero :: "jsval \<Rightarrow> js_error + bool" where
  "gt_zero v =
     (case v of
        None \<Rightarrow> Inr False
      | Some JNull \<Rightarrow> Inr False
      | Some (JBool b) \<Rightarrow> Inr b
      | Some (JNum i) \<Rightarrow> Inr (0 < i)
      | Some (JStr s) \<Rightarrow> Inr (positive_numeral s)
      | Some (JArr xs) \<Rightarrow> and_then (to_string (JArr xs)) (\<lambda>s. Inr (positive_numeral s))
      | Some (JObj kvs) \<Rightarrow> and_then (to_string (JObj kvs)) (\<lambda>s. Inr False))"

section \<open>The application state and its effects\<close>

text \<open>
  The six view functions; \<open>===\<close> on two of them is equality of the names.
\<close>

datatype page = MainMenu | ChatList | Chat | Profile | FriendsList | Requests

text \<open>
  What the program does to its surroundings, in order: a view function is entered with
  its parameters, the header or the content is assigned, the message area of the chat is
  assigned, the message input is disabled, a request is sent (method, URL, body), the
  host shows an alert or a popup.
\<close>

datatype event =
    Invoked page "jsval list"
  | HeaderSet string
  | ContentSet string
  | MessagesSet string
  | InputDisabled
  | Fetched string string "string option"
  | Alerted string
  | PopupShown

text \<open>
  A response is its status and what \<open>response.json()\<close> gives: the parsed body, or the
  error it rejects with when the body is not JSON.
\<close>

record response =
  status :: nat
  body_json :: "js_error + json"

text \<open>\<open>response.ok\<close>\<close>

definition ok :: "response \<Rightarrow> bool" where
  "ok r = (200 \<le> status r \<and> status r \<le> 299)"

text \<open>What \<open>fetch\<close> settles with: it rejects, or it resolves with a response.\<close>

datatype reply = Unreachable js_error | Reply response

text \<open>
  \<open>header\<close> and \<open>content\<close> are the \<open>innerHTML\<close> of the two elements of \<open>app\<close>,
  \<open>currentUser\<close> and \<open>navigationStack\<close> are \<open>app.state\<close>. \<open>network\<close> holds the replies
  the requests to come will get, in order; a request sent when it is empty never
  settles. \<open>trace\<close> records the events so far.
\<close>

record world =
  header :: string
  content :: string
  currentUser :: json
  navigationStack :: "(page \<times> string list) list"
  network :: "reply list"
  trace :: "event list"

definition apiBaseUrl :: string where
  "apiBaseUrl = ''http://127.0.0.1:8000''"

definition emit :: "event \<Rightarrow> world \<Rightarrow> world" where
  "emit e w = w\<lparr>trace := trace w @ [e]\<rparr>"

text \<open>
  An \<open>async\<close> function runs on a world and ends fulfilled, rejected, or suspended for
  ever at an \<open>await\<close> that never settles.
\<close>

datatype 'a outcome = Fulfilled 'a | Rejected js_error | Pending

type_synonym 'a async = "world \<Rightarrow> 'a outcome \<times> world"

definition await :: "'a async \<Rightarrow> ('a \<Rightarrow> 'b async) \<Rightarrow> 'b async" where
  "await m k w =
     (case m w of
        (Fulfilled x, w') \<Rightarrow> k x w'
      | (Rejected e, w') \<Rightarrow> (Rejected e, w')
      | (Pending, w') \<Rightarrow> (Pending, w'))"

definition try_catch :: "'a async \<Rightarrow> (js_error \<Rightarrow> 'a async) \<Rightarrow> 'a async" where
  "try_catch m h w =
     (case m w of
        (Rejected e, w') \<Rightarrow> h e w'
      | r \<Rightarrow> r)"

text \<open>An expression that may throw, inside an \<open>async\<close> function.\<close>

definition expr :: "js_error + 'a \<Rightarrow> ('a \<Rightarrow> 'b async) \<Rightarrow> 'b async" where
  "expr r k w = (case r of Inl e \<Rightarrow> (Rejected e, w) | Inr x \<Rightarrow> k x w)"

definition fetch :: "string \<Rightarrow> string \<Rightarrow> string option \<Rightarrow> response async" where
  "fetch url method body w =
     (let w' = emit (Fetched method url body) w in
      case network w' of
        [] \<Rightarrow> (Pending, w')
      | Unreachable e # rs \<Rightarrow> (Rejected e, w'\<lparr>network := rs\<rparr>)
      | Reply r # rs \<Rightarrow> (Fulfilled r, w'\<lparr>network := rs\<rparr>))"

section \<open>Page and header rendering\<close>

text \<open>
  Binding an event handler changes nothing that is modelled: the handlers are the
  functions of the last section, run when the user acts. The elements a template
  creates are taken to exist once it is rendered.
\<close>

definition renderHeader :: "string \<Rightarrow> bool \<Rightarrow> world \<Rightarrow> world" where
  \<open>renderHeader title showBackButton w =
     (let backButtonHtml =
            (if showBackButton
             then ''<button class="back-button">'' @
                  [CHR 0xE2, CHR 0x80, CHR 0x9A, CHR 0xC3, CHR 0x84, CHR 0xCF, CHR 0x80] @
                  '' Back</button>''
             else []);
          html = backButtonHtml @ ''<div class="header-title">'' @ title @ ''</div>''
      in emit (HeaderSet html) (w\<lparr>header := html\<rparr>))\<close>

definition render :: "string \<Rightarrow> world \<Rightarrow> world" where
  "render contentHtml w = emit (ContentSet contentHtml) (w\<lparr>content := contentHtml\<rparr>)"

definition renderLoading :: "world \<Rightarrow> world" where
  \<open>renderLoading w = render ''<div class="loader-container"><div class="loader"></div></div>'' w\<close>

definition errorPageHtml :: "string \<Rightarrow> string \<Rightarrow> string" where
  \<open>errorPageHtml title msg =
     ''<div class="info-text"><h2>'' @ title @ ''</h2><p>'' @ msg @
     ''</p><button class="button" onclick="location.reload()">Try Again</button></div>''\<close>

definition renderErrorPage :: "string \<Rightarrow> string \<Rightarrow> world \<Rightarrow> world" where
  "renderErrorPage title msg w = render (errorPageHtml title msg) (renderHeader ''Error'' False w)"

section \<open>API helper\<close>

text \<open>
  \<open>new Error(x).message\<close> is the empty string when \<open>x\<close> is \<open>undefined\<close>, and \<open>x\<close>
  converted to a string otherwise.
\<close>

definition new_Error :: "jsval \<Rightarrow> js_error + js_error" where
  "new_Error x =
     (case x of
        None \<Rightarrow> Inr (JsError [])
      | Some j \<Rightarrow> and_then (to_string j) (\<lambda>m. Inr (JsError m)))"

text \<open>\<open>response.json().catch(() => ({ detail: `HTTP error! Status: ${response.status}` }))\<close>\<close>

definition error_body :: "response \<Rightarrow> json" where
  "error_body r =
     (case body_json r of
        Inr j \<Rightarrow> j
      | Inl _ \<Rightarrow> JObj [(''detail'', JStr (''HTTP error! Status: '' @ decimal (status r)))])"

definition apiFetch :: "string \<Rightarrow> string \<Rightarrow> string option \<Rightarrow> json async" where
  "apiFetch endpoint method body =
     try_catch
       (await (fetch (apiBaseUrl @ endpoint) method body) (\<lambda>response.
          if \<not> ok response then
            expr (get (Some (error_body response)) ''detail'') (\<lambda>detail.
            expr (new_Error detail) (\<lambda>error w.
            (Rejected error, w)))
          else if status response = 204 then (\<lambda>w. (Fulfilled JNull, w))
          else expr (body_json response) (\<lambda>j w. (Fulfilled j, w))))
       (\<lambda>error w. (Rejected error, renderErrorPage ''API Error'' (message error) w))"

section \<open>Views\<close>

definition seq :: "(world \<Rightarrow> world) \<Rightarrow> 'a async \<Rightarrow> 'a async" where
  "seq f m w = m (f w)"

definition return :: "'a \<Rightarrow> 'a async" where
  "return x w = (Fulfilled x, w)"

text \<open>\<open>`${v.name}`\<close>\<close>

definition text_of :: "jsval \<Rightarrow> string \<Rightarrow> js_error + string" where
  "text_of v name = and_then (get v name) to_str"

text \<open>
  A parameter of a view function is a string of the argument list, or \<open>undefined\<close> when
  the list is too short.
\<close>

definition param_text :: "string option \<Rightarrow> string" where
  "param_text p = (case p of None \<Rightarrow> ''undefined'' | Some s \<Rightarrow> s)"

definition mainMenuHtml :: "jsval \<Rightarrow> js_error + string" where
  \<open>mainMenuHtml myProfile =
     and_then (text_of myProfile ''username'') (\<lambda>username.
     and_then (text_of myProfile ''unique_id'') (\<lambda>unique_id.
     Inr (''<div class="profile-header"><h1>Welcome, '' @ username @
          ''</h1><p>Your UID: <code class="uid">'' @ unique_id @ ''</code></p></div>'' @
          ''<button data-action="chats" class="button">Message History</button>'' @
          ''<button data-action="friends" class="button">Friends</button>'' @
          ''<button data-action="requests" class="button">Friend Requests</button>'' @
          ''<button data-action="search" class="button secondary">Search User by UID</button>'')))\<close>

definition renderMainMenu :: "unit async" where
  "renderMainMenu =
     seq (emit (Invoked MainMenu []))
    (seq (renderHeader ''Gadwa App'' False)
    (seq renderLoading
    (await (apiFetch ''/api/me'' ''GET'' None) (\<lambda>myProfile.
     seq (\<lambda>w. w\<lparr>currentUser := myProfile\<rparr>)
    (expr (mainMenuHtml (Some myProfile)) (\<lambda>html.
     seq (render html)
    (return ())))))))"

definition chatItemHtml :: "json \<Rightarrow> js_error + string" where
  \<open>chatItemHtml chat =
     and_then (text_of (Some chat) ''partner_uid'') (\<lambda>partner_uid.
     and_then (get (Some chat) ''partner_username'') (\<lambda>partner_username.
     and_then (to_str (or_else partner_username (Some (JStr ''Unknown User'')))) (\<lambda>name.
     and_then (get (Some chat) ''last_message_text'') (\<lambda>last_message_text.
     and_then (to_str (or_else last_message_text (Some (JStr ''...'')))) (\<lambda>preview.
     and_then (get (Some chat) ''unread_count'') (\<lambda>unread_count.
     and_then (gt_zero unread_count) (\<lambda>unread.
     and_then (if unread
               then and_then (text_of (Some chat) ''unread_count'') (\<lambda>n.
                      Inr (''<div class="unread-badge">'' @ n @ ''</div>''))
               else Inr []) (\<lambda>badge.
     Inr (''<div class="list-item" data-uid="'' @ partner_uid @ ''"><div class="item-info">'' @
          ''<div class="main-info">'' @ name @ ''</div><div class="sub-info">'' @ preview @
          ''</div></div>'' @ badge @ ''</div>'')))))))))\<close>

definition chatListContent :: "jsval \<Rightarrow> js_error + string" where
  \<open>chatListContent chats =
     and_then (length_is_0 chats) (\<lambda>empty.
       if empty then Inr ''<p class="info-text">You have no message history yet.</p>''
       else map_join ''chats'' chatItemHtml chats)\<close>

definition renderChatList :: "unit async" where
  "renderChatList =
     seq (emit (Invoked ChatList []))
    (seq (renderHeader ''Chats'' True)
    (seq renderLoading
    (await (apiFetch ''/api/chats'' ''GET'' None) (\<lambda>chats.
     expr (chatListContent (Some chats)) (\<lambda>content.
     seq (render content)
    (return ()))))))"

definition getPartnerUsername :: "string option \<Rightarrow> jsval async" where
  "getPartnerUsername partnerUid =
     try_catch
       (await (apiFetch (''/api/profile/'' @ param_text partnerUid) ''GET'' None) (\<lambda>profile.
        expr (get (Some profile) ''username'') (\<lambda>username.
        return username)))
       (\<lambda>e. return (map_option JStr partnerUid))"

definition chatSkeleton :: string where
  \<open>chatSkeleton =
     ''<div id="chat-content"><div id="chat-messages" class="loader-container">'' @
     ''<div class="loader"></div></div><div class="chat-input-area">'' @
     ''<textarea id="message-input" placeholder="Type a message..." rows="1"></textarea>'' @
     ''<button id="send-btn">'' @
     [CHR 0xE2, CHR 0x80, CHR 0x9A, CHR 0xC3, CHR 0xBB, CHR 0xC2, CHR 0xA7] @
     ''</button></div></div>''\<close>

definition bubbleHtml :: "json \<Rightarrow> json \<Rightarrow> js_error + string" where
  \<open>bubbleHtml user msg =
     and_then (get (Some msg) ''sender_uid'') (\<lambda>sender_uid.
     and_then (get (Some user) ''unique_id'') (\<lambda>unique_id.
     and_then (text_of (Some msg) ''text'') (\<lambda>text.
     Inr (''<div class="chat-bubble '' @
          (if strict_eq sender_uid unique_id then ''sent'' else ''received'') @
          ''">'' @ text @ ''</div>''))))\<close>

text \<open>
  \<open>renderChat\<close> is written in two parts: \<open>renderChatMessages\<close> is what it does
  once the skeleton is rendered.
\<close>

definition renderChatMessages :: "string option \<Rightarrow> unit async" where
  "renderChatMessages partnerUid =
     await (apiFetch (''/api/chat/'' @ param_text partnerUid) ''GET'' None) (\<lambda>reply.
     expr (destructure ''(intermediate value)'' (Some reply) ''messages'') (\<lambda>messages w.
     expr (map_join ''messages'' (bubbleHtml (currentUser w)) messages) (\<lambda>messagesHtml.
     seq (emit (MessagesSet messagesHtml))
    (return ())) w))"

definition renderChat :: "string option \<Rightarrow> unit async" where
  "renderChat partnerUid =
     seq (emit (Invoked Chat [map_option JStr partnerUid]))
    (await (getPartnerUsername partnerUid) (\<lambda>partnerUsername.
     expr (to_str partnerUsername) (\<lambda>name.
     seq (renderHeader (''Chat with '' @ name) True)
    (seq (render chatSkeleton)
    (renderChatMessages partnerUid)))))"

definition buttonsHtml :: "jsval \<Rightarrow> js_error + string" where
  \<open>buttonsHtml relation =
     and_then (get relation ''is_me'') (\<lambda>is_me.
       if \<not> truthy is_me then
         and_then (get relation ''is_blocked'') (\<lambda>is_blocked.
           if truthy is_blocked then
             Inr ''<button data-action="unblock" class="button">Unblock User</button>''
           else
             and_then (get relation ''is_friend'') (\<lambda>is_friend.
             and_then
               (if truthy is_friend then
                  Inr ''<button data-action="unfriend" class="button secondary">Unfriend</button>''
                else
                  and_then (get relation ''sent_request'') (\<lambda>sent_request.
                    if truthy sent_request then
                      Inr ''<button data-action="cancel_request" class="button secondary">Cancel Request</button>''
                    else
                      and_then (get relation ''received_request'') (\<lambda>received_request.
                        if truthy received_request then
                          Inr (''<div class="button-group">'' @
                               ''<button data-action="accept_friend" class="button">Accept</button>'' @
                               ''<button data-action="decline_friend" class="button secondary">Decline</button>'' @
                               ''</div>'')
                        else
                          Inr (''<button data-action="add_friend" class="button">'' @
                               [CHR 0xEF, CHR 0xA3, CHR 0xBF, CHR 0xC3, CHR 0xBC, CHR 0xC2, CHR 0xA7,
                                CHR 0xC3, CHR 0xB9] @
                               '' Add Friend</button>''))))
               (\<lambda>friendship.
                  Inr (friendship @
                       ''<button data-action="block" class="button destructive">Block User</button>''))))
       else Inr [])\<close>

definition profileHtml :: "jsval \<Rightarrow> string \<Rightarrow> js_error + string" where
  \<open>profileHtml profile buttons =
     and_then (text_of profile ''username'') (\<lambda>username.
     and_then (text_of profile ''status'') (\<lambda>status.
     and_then (text_of profile ''unique_id'') (\<lambda>unique_id.
     Inr (''<div class="profile-header"><h1>'' @ username @
          ''</h1><p>Status: <span class="status">'' @ status @
          ''</span></p><p>UID: <code class="uid">'' @ unique_id @
          ''</code></p></div><div id="action-buttons">'' @ buttons @ ''</div>''))))\<close>

definition renderProfile :: "string option \<Rightarrow> unit async" where
  "renderProfile targetUid =
     seq (emit (Invoked Profile [map_option JStr targetUid]))
    (seq (renderHeader ''Profile'' True)
    (seq renderLoading
    (await (apiFetch (''/api/profile/'' @ param_text targetUid) ''GET'' None) (\<lambda>profile.
     expr (destructure ''profile'' (Some profile) ''relation'') (\<lambda>relation.
     expr (buttonsHtml relation) (\<lambda>buttons.
     expr (profileHtml (Some profile) buttons) (\<lambda>html.
     seq (render html)
    (return ()))))))))"

definition friendItemHtml :: "json \<Rightarrow> js_error + string" where
  \<open>friendItemHtml friend =
     and_then (text_of (Some friend) ''unique_id'') (\<lambda>uid.
     and_then (text_of (Some friend) ''username'') (\<lambda>username.
     and_then (text_of (Some friend) ''unique_id'') (\<lambda>uid2.
     Inr (''<div class="list-item" data-uid="'' @ uid @ ''"><div class="main-info">'' @ username @
          ''</div><div class="sub-info">UID: '' @ uid2 @ ''</div></div>''))))\<close>

definition friendsListContent :: "jsval \<Rightarrow> js_error + string" where
  \<open>friendsListContent friends =
     and_then (length_is_0 friends) (\<lambda>empty.
       if empty then Inr (''<p class="info-text">You haven'' @ [CHR 0x27] @ ''t added any friends yet.</p>'')
       else map_join ''friends'' friendItemHtml friends)\<close>

definition renderFriendsList :: "unit async" where
  "renderFriendsList =
     seq (emit (Invoked FriendsList []))
    (seq (renderHeader ''Friends'' True)
    (seq renderLoading
    (await (apiFetch ''/api/friends'' ''GET'' None) (\<lambda>friends.
     expr (friendsListContent (Some friends)) (\<lambda>content.
     seq (render content)
    (return ()))))))"

definition requestItemHtml :: "string \<Rightarrow> json \<Rightarrow> js_error + string" where
  \<open>requestItemHtml type req =
     and_then (text_of (Some req) ''username'') (\<lambda>username.
     and_then (text_of (Some req) ''unique_id'') (\<lambda>uid.
     and_then
       (if type = ''received'' then
          and_then (text_of (Some req) ''unique_id'') (\<lambda>uid1.
          and_then (text_of (Some req) ''unique_id'') (\<lambda>uid2.
          Inr (''<div class="button-group"><button data-action="accept_friend" data-uid="'' @ uid1 @
               ''" class="button">Accept</button><button data-action="decline_friend" data-uid="'' @
               uid2 @ ''" class="button secondary">Decline</button></div>'')))
        else
          and_then (text_of (Some req) ''unique_id'') (\<lambda>uid1.
          Inr (''<button data-action="cancel_request" data-uid="'' @ uid1 @
               ''" class="button secondary">Cancel</button>'')))
       (\<lambda>buttons.
     Inr (''<div class="list-item" style="flex-direction: column; align-items: stretch;">'' @
          ''<div style="display: flex; justify-content: space-between; align-items: center; '' @
          ''width: 100%; margin-bottom: 10px;"><div class="main-info">'' @ username @
          ''</div><div class="sub-info">UID: '' @ uid @ ''</div></div>'' @ buttons @ ''</div>''))))\<close>

definition renderRequestList :: "jsval \<Rightarrow> string \<Rightarrow> js_error + string" where
  \<open>renderRequestList list type =
     and_then (length_is_0 list) (\<lambda>empty.
       if empty then Inr ''<p class="info-text">None</p>''
       else map_join ''list'' (requestItemHtml type) list)\<close>

definition requestsHtml :: "jsval \<Rightarrow> jsval \<Rightarrow> js_error + string" where
  \<open>requestsHtml received sent =
     and_then (renderRequestList received ''received'') (\<lambda>r.
     and_then (renderRequestList sent ''sent'') (\<lambda>s.
     Inr (''<div class="section-title">Received Requests</div><div id="received-requests">'' @ r @
          ''</div><div class="section-title">Sent Requests</div><div id="sent-requests">'' @ s @
          ''</div>'')))\<close>

definition renderRequests :: "unit async" where
  "renderRequests =
     seq (emit (Invoked Requests []))
    (seq (renderHeader ''Friend Requests'' True)
    (seq renderLoading
    (await (apiFetch ''/api/requests'' ''GET'' None) (\<lambda>reply.
     expr (destructure ''(intermediate value)'' (Some reply) ''received'') (\<lambda>received.
     expr (destructure ''(intermediate value)'' (Some reply) ''sent'') (\<lambda>sent.
     expr (requestsHtml received sent) (\<lambda>html.
     seq (render html)
    (return ()))))))))"

section \<open>Navigation\<close>

text \<open>\<open>pageFunction(...args)\<close>: the parameters are the leading arguments.\<close>

definition arg0 :: "string list \<Rightarrow> string option" where
  "arg0 args = (case args of [] \<Rightarrow> None | a # _ \<Rightarrow> Some a)"

fun call :: "page \<Rightarrow> string list \<Rightarrow> unit async" where
  "call MainMenu args = renderMainMenu"
| "call ChatList args = renderChatList"
| "call Chat args = renderChat (arg0 args)"
| "call Profile args = renderProfile (arg0 args)"
| "call FriendsList args = renderFriendsList"
| "call Requests args = renderRequests"

text \<open>The last entry of the stack, \<open>undefined\<close> when the stack is empty.\<close>

definition top :: "'a list \<Rightarrow> 'a option" where
  "top xs = (if xs = [] then None else Some (last xs))"

text \<open>
  The guard of \<open>navigateTo\<close>: there is a current page, its function is the requested
  one, and the two argument lists have the same \<open>JSON.stringify\<close>.
\<close>

definition same_page :: "(page \<times> string list) option \<Rightarrow> page \<Rightarrow> string list \<Rightarrow> bool" where
  "same_page currentPage pageFunction args =
     (case currentPage of
        None \<Rightarrow> False
      | Some (func, cargs) \<Rightarrow> func = pageFunction \<and> stringify_args cargs = stringify_args args)"

text \<open>
  A view function called without \<open>await\<close> returns a promise nobody looks at: the caller
  goes on whatever the outcome.
\<close>

definition navigateTo :: "page \<Rightarrow> string list \<Rightarrow> world \<Rightarrow> world" where
  "navigateTo pageFunction args w =
     (if same_page (top (navigationStack w)) pageFunction args then w
      else snd (call pageFunction args
                  (w\<lparr>navigationStack := navigationStack w @ [(pageFunction, args)]\<rparr>)))"

definition goBack :: "world \<Rightarrow> world" where
  "goBack w =
     (let w' = w\<lparr>navigationStack := butlast (navigationStack w)\<rparr> in
      case top (navigationStack w') of
        Some (func, args) \<Rightarrow> snd (call func args w')
      | None \<Rightarrow> navigateTo MainMenu [] w')"

section \<open>Event handlers\<close>

text \<open>
  The callback of the search popup. \<open>uid\<close> is what \<open>prompt\<close> returns: \<open>None\<close> when the
  user cancels.
\<close>

definition searchCallback :: "string option \<Rightarrow> world \<Rightarrow> world" where
  "searchCallback uid w =
     (case uid of
        None \<Rightarrow> w
      | Some u \<Rightarrow>
          if u \<noteq> [] \<and> eight_digits u then navigateTo Profile [trim u] w
          else if u \<noteq> [] then emit (Alerted ''Invalid UID format. Please enter 8 digits.'') w
          else w)"

definition handleSearch :: "string option \<Rightarrow> world \<Rightarrow> world" where
  "handleSearch uid w = searchCallback uid (emit PopupShown w)"

text \<open>
  The click handler of the main menu. \<open>action\<close> is \<open>e.target.dataset.action\<close>; \<open>uid\<close>
  is what the user will type if the search is started.
\<close>

definition mainMenuClick :: "string option \<Rightarrow> string option \<Rightarrow> world \<Rightarrow> world" where
  "mainMenuClick action uid w =
     (case action of
        None \<Rightarrow> w
      | Some a \<Rightarrow>
          if a = [] then w
          else
            (let w1 = (if a = ''chats'' then navigateTo ChatList [] w else w);
                 w2 = (if a = ''friends'' then navigateTo FriendsList [] w1 else w1);
                 w3 = (if a = ''requests'' then navigateTo Requests [] w2 else w2)
             in if a = ''search'' then handleSearch uid w3 else w3))"

text \<open>The click handlers of an entry of the chat list and of the friends list.\<close>

definition chatItemClick :: "string \<Rightarrow> world \<Rightarrow> world" where
  "chatItemClick uid w = navigateTo Chat [uid] w"

definition friendItemClick :: "string \<Rightarrow> world \<Rightarrow> world" where
  "friendItemClick uid w = navigateTo Profile [uid] w"

text \<open>
  The click handler of the send button of \<open>renderChat partnerUid\<close>; \<open>val\<close> is the
  \<open>value\<close> of the message input.
\<close>

definition sendClick :: "string option \<Rightarrow> string \<Rightarrow> unit async" where
  \<open>sendClick partnerUid val =
     (let text = trim val in
      if text \<noteq> [] then
        seq (emit InputDisabled)
       (await (apiFetch (''/api/message/'' @ param_text partnerUid) ''POST''
                 (Some (''{"text":'' @ json_quote text @ ''}''))) (\<lambda>_.
        seq (\<lambda>w. snd (renderChat partnerUid w))
       (return ())))
      else return ())\<close>

text \<open>
  The click handler of the action buttons of \<open>renderProfile targetUid\<close>; \<open>tagName\<close>
  and \<open>action\<close> are \<open>e.target.tagName\<close> and \<open>e.target.dataset.action\<close>.
\<close>

definition replace_underscore :: "string option \<Rightarrow> js_error + string" where
  "replace_underscore action =
     (case action of
        None \<Rightarrow> Inl (JsTypeError
          (''Cannot read properties of undefined (reading '' @ [CHR 0x27] @ ''replace'' @ [CHR 0x27] @ '')''))
      | Some a \<Rightarrow> Inr (replace_first CHR ''_'' CHR '' '' a))"

definition profileActionClick :: "string option \<Rightarrow> string \<Rightarrow> string option \<Rightarrow> unit async" where
  "profileActionClick targetUid tagName action =
     (if tagName = ''BUTTON'' then
        await (if action = Some ''add_friend''
               then apiFetch (''/api/friend_request/'' @ param_text targetUid) ''POST'' None
               else apiFetch (''/api/action/'' @ param_text action @ ''/'' @ param_text targetUid)
                      ''POST'' None) (\<lambda>_.
        expr (replace_underscore action) (\<lambda>shown.
        seq (emit (Alerted (''Action '' @ [CHR 0x27] @ shown @ [CHR 0x27] @ '' was successful!'')))
       (seq (\<lambda>w. snd (renderProfile targetUid w))
       (return ()))))
      else return ())"

text \<open>
  The click handler of \<open>renderRequests\<close>; \<open>uid\<close> is \<open>e.target.dataset.uid\<close>.
\<close>

definition requestsClick :: "string \<Rightarrow> string option \<Rightarrow> string option \<Rightarrow> unit async" where
  "requestsClick tagName action uid =
     (if tagName = ''BUTTON'' \<and> action \<noteq> None \<and> action \<noteq> Some [] then
        await (apiFetch (''/api/action/'' @ param_text action @ ''/'' @ param_text uid)
                 ''POST'' None) (\<lambda>_.
        seq (emit (Alerted ''Request updated!''))
       (seq (\<lambda>w. snd (renderRequests w))
       (return ())))
      else return ())"

section \<open>Initial load\<close>

definition initial :: "reply list \<Rightarrow> world" where
  "initial replies =
     \<lparr>header = [], content = [], currentUser = JNull, navigationStack = [],
      network = replies, trace = []\<rparr>"

text \<open>
  The \<open>DOMContentLoaded\<close> handler, when the host object \<open>window.Telegram.WebApp\<close> is
  there: the first navigation.
\<close>

definition startup :: "reply list \<Rightarrow> world" where
  "startup replies = navigateTo MainMenu [] (initial replies)"

section \<open>Observations\<close>

text \<open>The pages whose view function was entered, in order.\<close>

fun entered :: "event \<Rightarrow> page option" where
  "entered (Invoked p ps) = Some p"
| "entered _ = None"

definition invocations :: "world \<Rightarrow> page list" where
  "invocations w = List.map_filter entered (trace w)"

text \<open>
  \<open>frame f\<close>: the observation \<open>f\<close> of a world reads neither the display, nor the current
  user, nor the network, nor any event but the entering of a view function.
  \<open>preserves f m\<close>: running \<open>m\<close> leaves the observation as it was.
\<close>

definition frame :: "(world \<Rightarrow> 'x) \<Rightarrow> bool" where
  "frame f =
     (\<forall>w. (\<forall>h. f (w\<lparr>header := h\<rparr>) = f w) \<and> (\<forall>c. f (w\<lparr>content := c\<rparr>) = f w) \<and>
          (\<forall>u. f (w\<lparr>currentUser := u\<rparr>) = f w) \<and> (\<forall>n. f (w\<lparr>network := n\<rparr>) = f w) \<and>
          (\<forall>e. entered e = None \<longrightarrow> f (emit e w) = f w))"

definition preserves :: "(world \<Rightarrow> 'x) \<Rightarrow> 'a async \<Rightarrow> bool" where
  "preserves f m = (\<forall>w. f (snd (m w)) = f w)"

text \<open>\<open>grows m\<close>: running \<open>m\<close> only adds events to the trace.\<close>

definition grows :: "'a async \<Rightarrow> bool" where
  "grows m = (\<forall>w. prefix (trace w) (trace (snd (m w))))"

section \<open>Sequences of user actions\<close>

text \<open>
  What the user can do once a view is on the screen: the two navigation operations and
  the bound handlers, each with what the handler reads from the event and the page.
\<close>

datatype action =
    NavigateTo page "string list"
  | GoBack
  | MainMenuClick "string option" "string option"
  | ChatItemClick string
  | FriendItemClick string
  | Search "string option"
  | SendClick "string option" string
  | ProfileActionClick "string option" string "string option"
  | RequestsClick string "string option" "string option"

fun perform :: "action \<Rightarrow> world \<Rightarrow> world" where
  "perform (NavigateTo p args) w = navigateTo p args w"
| "perform GoBack w = goBack w"
| "perform (MainMenuClick a uid) w = mainMenuClick a uid w"
| "perform (ChatItemClick uid) w = chatItemClick uid w"
| "perform (FriendItemClick uid) w = friendItemClick uid w"
| "perform (Search uid) w = handleSearch uid w"
| "perform (SendClick uid val) w = snd (sendClick uid val w)"
| "perform (ProfileActionClick uid tag a) w = snd (profileActionClick uid tag a w)"
| "perform (RequestsClick tag a uid) w = snd (requestsClick tag a uid w)"

definition perform_all :: "action list \<Rightarrow> world \<Rightarrow> world" where
  "perform_all as w = foldl (\<lambda>w a. perform a w) w as"

section \<open>Reading the rendered markup\<close>

text \<open>
  The error page with this title and message is what the display holds, and rendering it
  was the last thing that happened.
\<close>

definition error_page_shown :: "string \<Rightarrow> string \<Rightarrow> world \<Rightarrow> bool" where
  \<open>error_page_shown title msg w =
     (header w = ''<div class="header-title">Error</div>'' \<and>
      content w = errorPageHtml title msg \<and>
      trace w \<noteq> [] \<and> last (trace w) = ContentSet (errorPageHtml title msg))\<close>



text \<open>The text that opens a \<open>data-action\<close> attribute.\<close>

definition action_marker :: string where
  "action_marker = ''data-action='' @ [CHR 0x22]"

section \<open>The relation of the profile view, as the specification words it\<close>

text \<open>
  The specification classifies the viewed user in the precedence order self, blocked,
  friend, request-sent, request-received, none, and gives each class its actions. These
  two definitions follow the specification, not the source; \<open>flag\<close> tells whether a
  member of the \<open>relation\<close> object is truthy.
\<close>

datatype relation_kind = Self | Blocked | Friend | RequestSent | RequestReceived | NoRelation



section \<open>What the functions leave alone\<close>

lemma frame_navigationStack: "frame navigationStack"
  by (simp add: frame_def emit_def)

lemma invocations_emit:
  "invocations (emit e w) = invocations w @ (case entered e of None \<Rightarrow> [] | Some p \<Rightarrow> [p])"
  by (simp add: invocations_def emit_def List.map_filter_def split: option.splits)

lemma frame_invocations: "frame invocations"
  unfolding frame_def by (simp add: invocations_emit) (simp add: invocations_def)

lemma preserves_return: "preserves f (return x)"
  by (simp add: preserves_def return_def)

lemma preserves_seq:
  "(\<And>w. f (g w) = f w) \<Longrightarrow> preserves f m \<Longrightarrow> preserves f (seq g m)"
  by (simp add: preserves_def seq_def)

lemma preserves_if:
  "(c \<Longrightarrow> preserves f a) \<Longrightarrow> (\<not> c \<Longrightarrow> preserves f b) \<Longrightarrow> preserves f (if c then a else b)"
  by simp

lemma preserves_await:
  assumes "preserves f m" and "\<And>x. preserves f (k x)"
  shows "preserves f (await m k)"
  unfolding preserves_def
proof
  fix w
  obtain r w' where mw: "m w = (r, w')" by (cases "m w")
  have same: "f w' = f w"
    using assms(1) mw by (metis preserves_def snd_conv)
  show "f (snd (await m k w)) = f w"
  proof (cases r)
    case (Fulfilled x)
    then show ?thesis
      using mw same assms(2)[of x] by (simp add: await_def preserves_def)
  next
    case (Rejected e)
    then show ?thesis using mw same by (simp add: await_def)
  next
    case Pending
    then show ?thesis using mw same by (simp add: await_def)
  qed
qed

lemma preserves_try_catch:
  assumes "preserves f m" and "\<And>e. preserves f (h e)"
  shows "preserves f (try_catch m h)"
  unfolding preserves_def
proof
  fix w
  obtain r w' where mw: "m w = (r, w')" by (cases "m w")
  have same: "f w' = f w"
    using assms(1) mw by (metis preserves_def snd_conv)
  show "f (snd (try_catch m h w)) = f w"
  proof (cases r)
    case (Fulfilled x)
    then show ?thesis using mw same by (simp add: try_catch_def)
  next
    case (Rejected e)
    then show ?thesis
      using mw same assms(2)[of e] by (simp add: try_catch_def preserves_def)
  next
    case Pending
    then show ?thesis using mw same by (simp add: try_catch_def)
  qed
qed

lemma preserves_expr:
  "(\<And>x. preserves f (k x)) \<Longrightarrow> preserves f (expr r k)"
  by (cases r) (simp_all add: preserves_def expr_def)

lemma preserves_pair: "(\<And>w. f (g w) = f w) \<Longrightarrow> preserves f (\<lambda>w. (r, g w))"
  by (simp add: preserves_def)

lemma frame_emit: "frame f \<Longrightarrow> entered e = None \<Longrightarrow> f (emit e w) = f w"
  by (simp add: frame_def)

lemma frame_renderHeader: "frame f \<Longrightarrow> f (renderHeader t b w) = f w"
  by (simp add: renderHeader_def Let_def frame_def)

lemma frame_render: "frame f \<Longrightarrow> f (render h w) = f w"
  by (simp add: render_def frame_def)

lemma frame_renderLoading: "frame f \<Longrightarrow> f (renderLoading w) = f w"
  by (simp add: renderLoading_def frame_render)

lemma frame_renderErrorPage: "frame f \<Longrightarrow> f (renderErrorPage t m w) = f w"
  by (simp add: renderErrorPage_def frame_render frame_renderHeader)

lemma frame_currentUser: "frame f \<Longrightarrow> f (w\<lparr>currentUser := u\<rparr>) = f w"
  by (simp add: frame_def)

lemma preserves_fetch: "frame f \<Longrightarrow> preserves f (fetch url m b)"
  by (auto simp: preserves_def fetch_def Let_def frame_def split: list.splits reply.splits)

lemma preserves_apiFetch: "frame f \<Longrightarrow> preserves f (apiFetch ep m b)"
  unfolding apiFetch_def
  by (intro preserves_try_catch preserves_await preserves_fetch preserves_if preserves_expr
        preserves_pair)
     (simp_all add: frame_renderErrorPage)

lemmas preserves_intros =
  preserves_try_catch preserves_await preserves_apiFetch preserves_if preserves_expr
  preserves_pair preserves_seq preserves_return

lemma preserves_getPartnerUsername: "frame f \<Longrightarrow> preserves f (getPartnerUsername uid)"
  unfolding getPartnerUsername_def
  by (intro preserves_intros) simp_all

lemma seq_head: "preserves f m \<Longrightarrow> f (snd (seq g m w)) = f (g w)"
  by (simp add: seq_def preserves_def)

lemma preserves_expr_dep:
  "(\<And>x. preserves f (k x)) \<Longrightarrow> preserves f (\<lambda>w. expr (r w) k w)"
  unfolding preserves_def expr_def by (auto split: sum.splits)

lemmas frame_simps =
  frame_renderHeader frame_renderLoading frame_render frame_currentUser frame_emit

lemma renderMainMenu_frame:
  "frame f \<Longrightarrow> f (snd (renderMainMenu w)) = f (emit (Invoked MainMenu []) w)"
  unfolding renderMainMenu_def
  by (rule seq_head) (intro preserves_intros; simp add: frame_simps)

lemma renderChatList_frame:
  "frame f \<Longrightarrow> f (snd (renderChatList w)) = f (emit (Invoked ChatList []) w)"
  unfolding renderChatList_def
  by (rule seq_head) (intro preserves_intros; simp add: frame_simps)

lemma preserves_renderChatMessages: "frame f \<Longrightarrow> preserves f (renderChatMessages uid)"
  unfolding renderChatMessages_def
  by (intro preserves_intros preserves_expr_dep; simp add: frame_simps)

lemma renderChat_frame:
  "frame f \<Longrightarrow> f (snd (renderChat uid w)) = f (emit (Invoked Chat [map_option JStr uid]) w)"
  unfolding renderChat_def
  by (rule seq_head)
     (intro preserves_intros preserves_getPartnerUsername preserves_renderChatMessages;
      simp add: frame_simps)

lemma renderProfile_frame:
  "frame f \<Longrightarrow> f (snd (renderProfile uid w)) = f (emit (Invoked Profile [map_option JStr uid]) w)"
  unfolding renderProfile_def
  by (rule seq_head) (intro preserves_intros; simp add: frame_simps)

lemma renderFriendsList_frame:
  "frame f \<Longrightarrow> f (snd (renderFriendsList w)) = f (emit (Invoked FriendsList []) w)"
  unfolding renderFriendsList_def
  by (rule seq_head) (intro preserves_intros; simp add: frame_simps)

lemma renderRequests_frame:
  "frame f \<Longrightarrow> f (snd (renderRequests w)) = f (emit (Invoked Requests []) w)"
  unfolding renderRequests_def
  by (rule seq_head) (intro preserves_intros; simp add: frame_simps)

lemmas view_frames =
  renderMainMenu_frame renderChatList_frame renderChat_frame renderProfile_frame
  renderFriendsList_frame renderRequests_frame

lemma navigationStack_emit: "navigationStack (emit e w) = navigationStack w"
  by (simp add: emit_def)

lemma call_navigationStack: "navigationStack (snd (call p a w)) = navigationStack w"
  by (cases p) (simp_all add: view_frames frame_navigationStack navigationStack_emit)

lemma call_invocations: "invocations (snd (call p a w)) = invocations w @ [p]"
  by (cases p) (simp_all add: view_frames frame_invocations invocations_emit)

section \<open>\<open>JSON.stringify\<close> is injective on lists of strings\<close>

lemma hex_pair_inj:
  assumes "n < 32" "m < 32"
    and "''0123456789abcdef'' ! (n div 16) = ''0123456789abcdef'' ! (m div 16)"
    and "''0123456789abcdef'' ! (n mod 16) = ''0123456789abcdef'' ! (m mod 16)"
  shows "n = (m::nat)"
proof -
  have d: "distinct ''0123456789abcdef''" by simp
  have l: "length ''0123456789abcdef'' = 16" by simp
  have "n div 16 < 16" "m div 16 < 16" using assms(1,2) by simp_all
  then have 1: "n div 16 = m div 16"
    using assms(3) d l by (metis nth_eq_iff_index_eq)
  have "n mod 16 < 16" "m mod 16 < 16" by simp_all
  then have 2: "n mod 16 = m mod 16"
    using assms(4) d l by (metis nth_eq_iff_index_eq)
  show ?thesis using 1 2 by (metis div_mult_mod_eq)
qed

lemma escape_char_head: "\<exists>e es. escape_char c = e # es \<and> e \<noteq> CHR 0x22"
  by (simp add: escape_char_def)

lemma escape_char_plain:
  "c \<noteq> CHR 0x22 \<Longrightarrow> c \<noteq> CHR 0x5C \<Longrightarrow> \<not> (of_char c :: nat) < 32 \<Longrightarrow> escape_char c = [c]"
  by (auto simp: escape_char_def)

lemma escape_char_special:
  "c = CHR 0x22 \<or> c = CHR 0x5C \<or> (of_char c :: nat) < 32 \<Longrightarrow>
   \<exists>es. escape_char c = CHR 0x5C # es"
  by (auto simp: escape_char_def)

lemma of_char_nat_inj: "(of_char c :: nat) = of_char d \<Longrightarrow> c = d"
  by (metis char_of_char)

lemma escape_char_inj:
  assumes "escape_char c @ x = escape_char d @ y"
  shows "c = d"
proof -
  have u: "(of_char c :: nat) < 32 \<Longrightarrow> (of_char d :: nat) < 32 \<Longrightarrow>
        ''0123456789abcdef'' ! ((of_char c :: nat) div 16) = ''0123456789abcdef'' ! ((of_char d :: nat) div 16) \<Longrightarrow>
        ''0123456789abcdef'' ! ((of_char c :: nat) mod 16) = ''0123456789abcdef'' ! ((of_char d :: nat) mod 16) \<Longrightarrow>
        c = d"
    using hex_pair_inj of_char_nat_inj by blast
  show ?thesis
    using assms u
    by (simp add: escape_char_def split: if_splits)
qed

lemma escaped_inj:
  "concat (map escape_char s) @ CHR 0x22 # x = concat (map escape_char t) @ CHR 0x22 # y \<Longrightarrow>
   s = t \<and> x = y"
proof (induction s arbitrary: t)
  case Nil
  show ?case
  proof (cases t)
    case Nil
    with Nil.prems show ?thesis by simp
  next
    case (Cons d t')
    obtain e es where "escape_char d = e # es" "e \<noteq> CHR 0x22"
      using escape_char_head by blast
    with Nil.prems Cons show ?thesis by simp
  qed
next
  case (Cons c s')
  show ?case
  proof (cases t)
    case Nil
    obtain e es where "escape_char c = e # es" "e \<noteq> CHR 0x22"
      using escape_char_head by blast
    with Cons.prems Nil show ?thesis by simp
  next
    case (Cons d t')
    have eq: "escape_char c @ (concat (map escape_char s') @ CHR 0x22 # x) =
              escape_char d @ (concat (map escape_char t') @ CHR 0x22 # y)"
      using Cons.prems Cons by simp
    then have cd: "c = d" by (rule escape_char_inj)
    with eq have "concat (map escape_char s') @ CHR 0x22 # x =
                  concat (map escape_char t') @ CHR 0x22 # y"
      by simp
    then have "s' = t' \<and> x = y" by (rule Cons.IH)
    with cd Cons show ?thesis by simp
  qed
qed

lemma json_quote_inj:
  "json_quote s @ x = json_quote t @ y \<Longrightarrow> s = t \<and> x = y"
  using escaped_inj[of s x t y] by (simp add: json_quote_def)

lemma json_quote_head: "\<exists>r. json_quote s = CHR 0x22 # r"
  by (simp add: json_quote_def)

lemma join_Cons:
  "join sep (x # xs) @ z = x @ (if xs = [] then z else sep @ join sep xs @ z)"
  by (cases xs) simp_all

lemma joined_inj:
  "join '','' (map json_quote a) @ '']'' = join '','' (map json_quote b) @ '']'' \<Longrightarrow> a = b"
proof (induction a arbitrary: b)
  case Nil
  show ?case
  proof (cases b)
    case Nil
    then show ?thesis by simp
  next
    case (Cons t b')
    obtain r where "json_quote t = CHR 0x22 # r" using json_quote_head by blast
    with Nil.prems Cons show ?thesis by (simp add: join_Cons)
  qed
next
  case (Cons s a')
  show ?case
  proof (cases b)
    case Nil
    obtain r where "json_quote s = CHR 0x22 # r" using json_quote_head by blast
    with Cons.prems Nil show ?thesis by (simp add: join_Cons)
  next
    case (Cons t b')
    let ?ra = "if map json_quote a' = [] then '']'' else '','' @ join '','' (map json_quote a') @ '']''"
    let ?rb = "if map json_quote b' = [] then '']'' else '','' @ join '','' (map json_quote b') @ '']''"
    have "json_quote s @ ?ra = json_quote t @ ?rb"
      using Cons.prems Cons by (simp only: list.map join_Cons)
    then have st: "s = t" and r: "?ra = ?rb"
      using json_quote_inj by blast+
    have "a' = b'"
    proof (cases "a' = []")
      case True
      with r show ?thesis by (cases "b' = []") simp_all
    next
      case False
      with r have "b' \<noteq> []" by (cases "b' = []") simp_all
      with False r have "join '','' (map json_quote a') @ '']'' = join '','' (map json_quote b') @ '']''"
        by simp
      then show ?thesis by (rule Cons.IH)
    qed
    with st Cons show ?thesis by simp
  qed
qed

lemma stringify_args_inj: "stringify_args a = stringify_args b \<Longrightarrow> a = b"
  by (rule joined_inj) (simp add: stringify_args_def)

lemma same_page_iff: "same_page cur p a \<longleftrightarrow> cur = Some (p, a)"
  by (auto simp: same_page_def split: option.splits dest: stringify_args_inj)

section \<open>Trimming\<close>

lemma strip_unchanged:
  "(\<And>p. p \<in> set ps \<Longrightarrow> p \<noteq> [] \<Longrightarrow> \<not> prefix p s) \<Longrightarrow> strip ps s = s"
proof -
  assume a: "\<And>p. p \<in> set ps \<Longrightarrow> p \<noteq> [] \<Longrightarrow> \<not> prefix p s"
  then have "find (\<lambda>p. p \<noteq> [] \<and> prefix p s) ps = None"
    by (auto simp: find_None_iff)
  then show ?thesis
    by (subst strip.simps) simp
qed

lemma strip_Nil: "strip ps [] = []"
  by (rule strip_unchanged) simp

lemma whitespace_ends:
  "p \<in> set whitespace \<Longrightarrow> p \<noteq> [] \<and> \<not> is_digit (hd p) \<and> \<not> is_digit (last p)"
  by (auto simp: whitespace_def is_digit_def)

lemma prefix_hd: "prefix p s \<Longrightarrow> p \<noteq> [] \<Longrightarrow> hd p = hd s"
  by (auto simp: prefix_def)

lemma trim_digits:
  assumes "s \<noteq> []" "is_digit (hd s)" "is_digit (last s)"
  shows "trim s = s"
proof -
  have 1: "strip whitespace s = s"
  proof (rule strip_unchanged)
    fix p assume "p \<in> set whitespace" "p \<noteq> []"
    then show "\<not> prefix p s"
      using whitespace_ends[of p] prefix_hd[of p s] assms by auto
  qed
  have 2: "strip (map rev whitespace) (rev s) = rev s"
  proof (rule strip_unchanged)
    fix p assume "p \<in> set (map rev whitespace)" "p \<noteq> []"
    then obtain q where q: "q \<in> set whitespace" "p = rev q" by auto
    then have "\<not> is_digit (hd p)"
      using whitespace_ends[of q] by (simp add: hd_rev)
    moreover have "is_digit (hd (rev s))"
      using assms by (simp add: hd_rev)
    ultimately show "\<not> prefix p (rev s)"
      using prefix_hd[of p "rev s"] \<open>p \<noteq> []\<close> by auto
  qed
  show ?thesis by (simp add: trim_def 1 2)
qed

lemma trim_eight_digits: "eight_digits u \<Longrightarrow> trim u = u"
proof -
  assume e: "eight_digits u"
  then have n: "u \<noteq> []" by (auto simp: eight_digits_def)
  from e have "\<forall>c\<in>set u. is_digit c" by (simp add: eight_digits_def list_all_iff)
  with n have "is_digit (hd u)" "is_digit (last u)" by simp_all
  with n show ?thesis by (rule trim_digits)
qed

lemma whitespace_length:
  "p \<in> set whitespace \<Longrightarrow>
   length p = (if (of_char (hd p) :: nat) < 128 then 1 else if hd p = CHR 0xC2 then 2 else 3)"
  by (auto simp: whitespace_def)

lemma whitespace_prefix_free:
  assumes "p \<in> set whitespace" "q \<in> set whitespace" "prefix p q"
  shows "p = q"
proof -
  have "p \<noteq> []" using assms(1) whitespace_ends by blast
  then have "hd p = hd q" using assms(3) by (rule prefix_hd[rotated])
  then have "length p = length q"
    using whitespace_length[OF assms(1)] whitespace_length[OF assms(2)] by simp
  with assms(3) show ?thesis
    by (auto simp: prefix_def)
qed

lemma strip_whitespace_step:
  assumes "p \<in> set whitespace"
  shows "strip whitespace (p @ r) = strip whitespace r"
proof -
  have pn: "p \<noteq> []" using assms whitespace_ends by blast
  then have "\<exists>x\<in>set whitespace. x \<noteq> [] \<and> prefix x (p @ r)"
    using assms by auto
  then obtain q where f: "find (\<lambda>x. x \<noteq> [] \<and> prefix x (p @ r)) whitespace = Some q"
    by (cases "find (\<lambda>x. x \<noteq> [] \<and> prefix x (p @ r)) whitespace") (auto simp: find_None_iff)
  then have q: "q \<in> set whitespace" "prefix q (p @ r)"
    by (auto simp: find_Some_iff)
  have "prefix p (p @ r)" by simp
  with q(2) have "prefix p q \<or> prefix q p"
    by (metis prefix_same_cases)
  then have "q = p"
    using whitespace_prefix_free assms q(1) by blast
  with f show ?thesis
    by (subst strip.simps) simp
qed

lemma strip_whitespace_only:
  "set ws \<subseteq> set whitespace \<Longrightarrow> strip whitespace (concat ws) = []"
  by (induction ws) (simp_all add: strip_Nil strip_whitespace_step)

lemma trim_whitespace_only:
  "set ws \<subseteq> set whitespace \<Longrightarrow> trim (concat ws) = []"
  by (simp add: trim_def strip_whitespace_only strip_Nil)

section \<open>Navigation lemmas\<close>

lemma top_snoc: "top (xs @ [x]) = Some x"
  by (simp add: top_def)

lemma top_Nil: "top [] = None"
  by (simp add: top_def)

lemma same_page_refl: "same_page (Some (p, a)) p a"
  by (simp add: same_page_def)

lemma navigateTo_skip:
  "same_page (top (navigationStack w)) p a \<Longrightarrow> navigateTo p a w = w"
  by (simp add: navigateTo_def)

lemma navigateTo_push:
  "\<not> same_page (top (navigationStack w)) p a \<Longrightarrow>
   navigateTo p a w = snd (call p a (w\<lparr>navigationStack := navigationStack w @ [(p, a)]\<rparr>))"
  by (simp add: navigateTo_def)

lemma navigateTo_push_stack:
  "\<not> same_page (top (navigationStack w)) p a \<Longrightarrow>
   navigationStack (navigateTo p a w) = navigationStack w @ [(p, a)]"
  by (simp add: navigateTo_push call_navigationStack)

lemma invocations_stack_update:
  "invocations (w\<lparr>navigationStack := s\<rparr>) = invocations w"
  by (simp add: invocations_def)

lemma navigateTo_push_invocations:
  "\<not> same_page (top (navigationStack w)) p a \<Longrightarrow>
   invocations (navigateTo p a w) = invocations w @ [p]"
  by (simp add: navigateTo_push call_invocations invocations_stack_update)

lemma navigateTo_current:
  "same_page (top (navigationStack (navigateTo p a w))) p a"
proof (cases "same_page (top (navigationStack w)) p a")
  case True
  then show ?thesis by (simp add: navigateTo_skip)
next
  case False
  then show ?thesis by (simp add: navigateTo_push_stack top_snoc same_page_refl)
qed

lemma navigateTo_nonempty: "navigationStack (navigateTo p a w) \<noteq> []"
  using navigateTo_current[of p a w] by (auto simp: same_page_def top_def)

lemma goBack_nonempty: "navigationStack (goBack w) \<noteq> []"
proof (cases "top (butlast (navigationStack w))")
  case None
  then show ?thesis by (simp add: goBack_def Let_def navigateTo_nonempty)
next
  case (Some e)
  then have "butlast (navigationStack w) \<noteq> []" by (auto simp: top_def split: if_splits)
  with Some show ?thesis
    by (cases e) (simp add: goBack_def Let_def call_navigationStack)
qed

lemma sendClick_stack: "navigationStack (snd (sendClick uid val w)) = navigationStack w"
proof -
  have "preserves navigationStack (sendClick uid val)"
    unfolding sendClick_def Let_def
    by (intro preserves_intros)
       (simp_all add: frame_navigationStack navigationStack_emit renderChat_frame)
  then show ?thesis by (simp add: preserves_def)
qed

lemma profileActionClick_stack:
  "navigationStack (snd (profileActionClick uid tag a w)) = navigationStack w"
proof -
  have "preserves navigationStack (profileActionClick uid tag a)"
    unfolding profileActionClick_def
    by (intro preserves_intros)
       (simp_all add: frame_navigationStack navigationStack_emit renderProfile_frame)
  then show ?thesis by (simp add: preserves_def)
qed

lemma requestsClick_stack:
  "navigationStack (snd (requestsClick tag a uid w)) = navigationStack w"
proof -
  have "preserves navigationStack (requestsClick tag a uid)"
    unfolding requestsClick_def
    by (intro preserves_intros)
       (simp_all add: frame_navigationStack navigationStack_emit renderRequests_frame)
  then show ?thesis by (simp add: preserves_def)
qed

lemma searchCallback_nonempty:
  "navigationStack w \<noteq> [] \<Longrightarrow> navigationStack (searchCallback uid w) \<noteq> []"
  by (auto simp: searchCallback_def navigateTo_nonempty navigationStack_emit split: option.splits)

lemma handleSearch_nonempty:
  "navigationStack w \<noteq> [] \<Longrightarrow> navigationStack (handleSearch uid w) \<noteq> []"
  by (simp add: handleSearch_def searchCallback_nonempty navigationStack_emit)

lemma mainMenuClick_nonempty:
  "navigationStack w \<noteq> [] \<Longrightarrow> navigationStack (mainMenuClick a uid w) \<noteq> []"
  by (auto simp: mainMenuClick_def Let_def navigateTo_nonempty handleSearch_nonempty
      split: option.splits)

lemma perform_nonempty:
  "navigationStack w \<noteq> [] \<Longrightarrow> navigationStack (perform a w) \<noteq> []"
  by (cases a)
     (simp_all add: navigateTo_nonempty goBack_nonempty mainMenuClick_nonempty
        chatItemClick_def friendItemClick_def handleSearch_nonempty sendClick_stack
        profileActionClick_stack requestsClick_stack)

lemma perform_all_nonempty:
  "navigationStack w \<noteq> [] \<Longrightarrow> navigationStack (perform_all as w) \<noteq> []"
  unfolding perform_all_def
  by (induction as arbitrary: w) (simp_all add: perform_nonempty)

lemma startup_stack: "navigationStack (startup replies) = [(MainMenu, [])]"
  by (simp add: startup_def initial_def navigateTo_push_stack top_Nil same_page_def)

lemma goBack_single:
  assumes "navigationStack w = [e]"
  shows "goBack w = navigateTo MainMenu [] (w\<lparr>navigationStack := []\<rparr>)"
    and "navigationStack (goBack w) = [(MainMenu, [])]"
    and "invocations (goBack w) = invocations w @ [MainMenu]"
proof -
  show g: "goBack w = navigateTo MainMenu [] (w\<lparr>navigationStack := []\<rparr>)"
    using assms by (simp add: goBack_def Let_def top_Nil)
  have np: "\<not> same_page (top (navigationStack (w\<lparr>navigationStack := []\<rparr>))) MainMenu []"
    by (simp add: top_Nil same_page_def)
  show "navigationStack (goBack w) = [(MainMenu, [])]"
    unfolding g using navigateTo_push_stack[OF np] by simp
  show "invocations (goBack w) = invocations w @ [MainMenu]"
    unfolding g using navigateTo_push_invocations[OF np] by (simp add: invocations_stack_update)
qed

section \<open>The outcomes of an API call\<close>

lemma fetch_Reply:
  "network w = Reply r # rs \<Longrightarrow>
   fetch url m b w = (Fulfilled r, (emit (Fetched m url b) w)\<lparr>network := rs\<rparr>)"
  by (simp add: fetch_def emit_def)

lemma fetch_Unreachable:
  "network w = Unreachable e # rs \<Longrightarrow>
   fetch url m b w = (Rejected e, (emit (Fetched m url b) w)\<lparr>network := rs\<rparr>)"
  by (simp add: fetch_def emit_def)

lemma fetch_Nil:
  "network w = [] \<Longrightarrow> fetch url m b w = (Pending, emit (Fetched m url b) w)"
  by (simp add: fetch_def emit_def)

lemma apiFetch_204:
  "network w = Reply r # rs \<Longrightarrow> ok r \<Longrightarrow> status r = 204 \<Longrightarrow>
   apiFetch ep m b w = (Fulfilled JNull, (emit (Fetched m (apiBaseUrl @ ep) b) w)\<lparr>network := rs\<rparr>)"
  by (simp add: apiFetch_def try_catch_def await_def fetch_Reply)

lemma apiFetch_json:
  "network w = Reply r # rs \<Longrightarrow> ok r \<Longrightarrow> status r \<noteq> 204 \<Longrightarrow> body_json r = Inr j \<Longrightarrow>
   apiFetch ep m b w = (Fulfilled j, (emit (Fetched m (apiBaseUrl @ ep) b) w)\<lparr>network := rs\<rparr>)"
  by (simp add: apiFetch_def try_catch_def await_def fetch_Reply expr_def)

lemma apiFetch_unparsed:
  "network w = Reply r # rs \<Longrightarrow> ok r \<Longrightarrow> status r \<noteq> 204 \<Longrightarrow> body_json r = Inl e \<Longrightarrow>
   apiFetch ep m b w =
     (Rejected e, renderErrorPage ''API Error'' (message e)
                    ((emit (Fetched m (apiBaseUrl @ ep) b) w)\<lparr>network := rs\<rparr>))"
  by (simp add: apiFetch_def try_catch_def await_def fetch_Reply expr_def)

lemma apiFetch_unreachable:
  "network w = Unreachable e # rs \<Longrightarrow>
   apiFetch ep m b w =
     (Rejected e, renderErrorPage ''API Error'' (message e)
                    ((emit (Fetched m (apiBaseUrl @ ep) b) w)\<lparr>network := rs\<rparr>))"
  by (simp add: apiFetch_def try_catch_def await_def fetch_Unreachable)

lemma apiFetch_pending:
  "network w = [] \<Longrightarrow>
   apiFetch ep m b w = (Pending, emit (Fetched m (apiBaseUrl @ ep) b) w)"
  by (simp add: apiFetch_def try_catch_def await_def fetch_Nil)

lemma apiFetch_status_text:
  "network w = Reply r # rs \<Longrightarrow> \<not> ok r \<Longrightarrow> body_json r = Inl e \<Longrightarrow>
   apiFetch ep m b w =
     (Rejected (JsError (''HTTP error! Status: '' @ decimal (status r))),
      renderErrorPage ''API Error'' (''HTTP error! Status: '' @ decimal (status r))
        ((emit (Fetched m (apiBaseUrl @ ep) b) w)\<lparr>network := rs\<rparr>))"
  by (simp add: apiFetch_def try_catch_def await_def fetch_Reply expr_def error_body_def
      get_def new_Error_def and_then_def)

lemma apiFetch_detail:
  "network w = Reply r # rs \<Longrightarrow> \<not> ok r \<Longrightarrow> body_json r = Inr (JObj kvs) \<Longrightarrow>
   map_of kvs ''detail'' = Some v \<Longrightarrow> to_string v = Inr msg \<Longrightarrow>
   apiFetch ep m b w =
     (Rejected (JsError msg),
      renderErrorPage ''API Error'' msg ((emit (Fetched m (apiBaseUrl @ ep) b) w)\<lparr>network := rs\<rparr>))"
  by (simp add: apiFetch_def try_catch_def await_def fetch_Reply expr_def error_body_def
      get_def new_Error_def and_then_def)

section \<open>A failed call ends the view\<close>

lemma renderErrorPage_shown: "error_page_shown t m (renderErrorPage t m w)"
  by (simp add: error_page_shown_def renderErrorPage_def render_def renderHeader_def emit_def Let_def)

lemma apiFetch_rejected_shown:
  assumes "apiFetch ep m b w = (Rejected e, w1)"
  shows "error_page_shown ''API Error'' (message e) w1"
proof -
  let ?inner = "await (fetch (apiBaseUrl @ ep) m b) (\<lambda>response.
          if \<not> ok response then
            expr (get (Some (error_body response)) ''detail'') (\<lambda>detail.
            expr (new_Error detail) (\<lambda>error w.
            (Rejected error, w)))
          else if status response = 204 then (\<lambda>w. (Fulfilled JNull, w))
          else expr (body_json response) (\<lambda>j w. (Fulfilled j, w)))"
  obtain r w' where i: "?inner w = (r, w')" by (cases "?inner w")
  show ?thesis
  proof (cases r)
    case (Fulfilled x)
    with i assms show ?thesis by (simp add: apiFetch_def try_catch_def)
  next
    case (Rejected e')
    with i assms have "e' = e" "w1 = renderErrorPage ''API Error'' (message e') w'"
      by (auto simp: apiFetch_def try_catch_def)
    then show ?thesis by (simp add: renderErrorPage_shown)
  next
    case Pending
    with i assms show ?thesis by (simp add: apiFetch_def try_catch_def)
  qed
qed

text \<open>The message of a response that is not a success.\<close>

lemma apiFetch_failure:
  assumes "network w = Reply r # rs" "\<not> ok r"
    and "(body_json r = Inl e \<and> msg = ''HTTP error! Status: '' @ decimal (status r)) \<or>
         (body_json r = Inr (JObj kvs) \<and> map_of kvs ''detail'' = Some v \<and> to_string v = Inr msg)"
  shows "apiFetch ep m b w =
     (Rejected (JsError msg),
      renderErrorPage ''API Error'' msg ((emit (Fetched m (apiBaseUrl @ ep) b) w)\<lparr>network := rs\<rparr>))"
  using assms apiFetch_status_text[of w r rs e ep m b] apiFetch_detail[of w r rs kvs v msg ep m b]
  by auto

lemma network_emit: "network (emit e w) = network w"
  by (simp add: emit_def)

lemma network_renderHeader: "network (renderHeader t b w) = network w"
  by (simp add: renderHeader_def emit_def Let_def)

lemma network_render: "network (render h w) = network w"
  by (simp add: render_def emit_def)

lemma network_renderLoading: "network (renderLoading w) = network w"
  by (simp add: renderLoading_def network_render)

lemmas network_simps = network_emit network_renderHeader network_render network_renderLoading

lemma renderMainMenu_abort:
  "apiFetch ''/api/me'' ''GET'' None
     (renderLoading (renderHeader ''Gadwa App'' False (emit (Invoked MainMenu []) w))) = (Rejected e, w1) \<Longrightarrow>
   renderMainMenu w = (Rejected e, w1)"
  by (simp add: renderMainMenu_def seq_def await_def)

lemma renderChatList_abort:
  "apiFetch ''/api/chats'' ''GET'' None
     (renderLoading (renderHeader ''Chats'' True (emit (Invoked ChatList []) w))) = (Rejected e, w1) \<Longrightarrow>
   renderChatList w = (Rejected e, w1)"
  by (simp add: renderChatList_def seq_def await_def)

lemma renderProfile_abort:
  "apiFetch (''/api/profile/'' @ param_text uid) ''GET'' None
     (renderLoading (renderHeader ''Profile'' True (emit (Invoked Profile [map_option JStr uid]) w)))
     = (Rejected e, w1) \<Longrightarrow>
   renderProfile uid w = (Rejected e, w1)"
  by (simp add: renderProfile_def seq_def await_def)

lemma renderFriendsList_abort:
  "apiFetch ''/api/friends'' ''GET'' None
     (renderLoading (renderHeader ''Friends'' True (emit (Invoked FriendsList []) w))) = (Rejected e, w1) \<Longrightarrow>
   renderFriendsList w = (Rejected e, w1)"
  by (simp add: renderFriendsList_def seq_def await_def)

lemma renderRequests_abort:
  "apiFetch ''/api/requests'' ''GET'' None
     (renderLoading (renderHeader ''Friend Requests'' True (emit (Invoked Requests []) w))) = (Rejected e, w1) \<Longrightarrow>
   renderRequests w = (Rejected e, w1)"
  by (simp add: renderRequests_def seq_def await_def)

lemma renderChatMessages_abort:
  "apiFetch (''/api/chat/'' @ param_text uid) ''GET'' None w = (Rejected e, w1) \<Longrightarrow>
   renderChatMessages uid w = (Rejected e, w1)"
  by (simp add: renderChatMessages_def await_def)

lemma sendClick_abort:
  "trim val \<noteq> [] \<Longrightarrow>
   apiFetch (''/api/message/'' @ param_text uid) ''POST''
     (Some (''{'' @ [CHR 0x22] @ ''text'' @ [CHR 0x22] @ '':'' @ json_quote (trim val) @ ''}''))
     (emit InputDisabled w) = (Rejected e, w1) \<Longrightarrow>
   sendClick uid val w = (Rejected e, w1)"
  by (simp add: sendClick_def Let_def seq_def await_def)

lemma profileActionClick_abort:
  "apiFetch (if a = Some ''add_friend'' then ''/api/friend_request/'' @ param_text uid
             else ''/api/action/'' @ param_text a @ ''/'' @ param_text uid) ''POST'' None w
     = (Rejected e, w1) \<Longrightarrow>
   profileActionClick uid ''BUTTON'' a w = (Rejected e, w1)"
  by (simp add: profileActionClick_def await_def split: if_splits)

lemma requestsClick_abort:
  "a \<noteq> None \<Longrightarrow> a \<noteq> Some [] \<Longrightarrow>
   apiFetch (''/api/action/'' @ param_text a @ ''/'' @ param_text uid) ''POST'' None w
     = (Rejected e, w1) \<Longrightarrow>
   requestsClick ''BUTTON'' a uid w = (Rejected e, w1)"
  by (simp add: requestsClick_def await_def)

lemma failing_call:
  assumes "network w = Reply r # rs" "\<not> ok r"
    and "(body_json r = Inl e \<and> msg = ''HTTP error! Status: '' @ decimal (status r)) \<or>
         (body_json r = Inr (JObj kvs) \<and> map_of kvs ''detail'' = Some v \<and> to_string v = Inr msg)"
  shows "\<exists>w1. apiFetch ep m b w = (Rejected (JsError msg), w1) \<and>
              error_page_shown ''API Error'' msg w1"
  using apiFetch_failure[OF assms, of ep m b] renderErrorPage_shown by simp

lemma aborted:
  "V = (Rejected (JsError msg), w1) \<Longrightarrow> error_page_shown ''API Error'' msg w1 \<Longrightarrow>
   fst V = Rejected (JsError msg) \<and> error_page_shown ''API Error'' msg (snd V)"
  by simp

section \<open>The chat view\<close>

lemma to_str_param: "to_str (map_option JStr uid) = Inr (param_text uid)"
  by (cases uid) (simp_all add: to_str_def param_text_def)

lemma getPartnerUsername_swallows:
  "apiFetch (''/api/profile/'' @ param_text uid) ''GET'' None w = (Rejected e, w1) \<Longrightarrow>
   getPartnerUsername uid w = (Fulfilled (map_option JStr uid), w1)"
  by (simp add: getPartnerUsername_def try_catch_def await_def return_def)

lemma renderChat_named:
  "getPartnerUsername uid (emit (Invoked Chat [map_option JStr uid]) w) = (Fulfilled nm, w1) \<Longrightarrow>
   to_str nm = Inr name \<Longrightarrow>
   renderChat uid w =
     renderChatMessages uid (render chatSkeleton (renderHeader (''Chat with '' @ name) True w1))"
  by (simp add: renderChat_def seq_def await_def expr_def)

lemma apiFetch_succeeds:
  assumes "network w = Reply r # rs" "ok r" "status r = 204 \<or> body_json r = Inr j"
  shows "\<exists>x. apiFetch ep m b w =
           (Fulfilled x, (emit (Fetched m (apiBaseUrl @ ep) b) w)\<lparr>network := rs\<rparr>)"
  using assms apiFetch_204[of w r rs ep m b] apiFetch_json[of w r rs j ep m b]
  by (cases "status r = 204") auto

lemma getPartnerUsername_found:
  assumes "network w = Reply p # rs" "ok p" "status p \<noteq> 204" "body_json p = Inr (JObj pk)"
  shows "getPartnerUsername uid w =
     (Fulfilled (map_of pk ''username''),
      (emit (Fetched ''GET'' (apiBaseUrl @ ''/api/profile/'' @ param_text uid) None) w)\<lparr>network := rs\<rparr>)"
  using apiFetch_json[OF assms, of "''/api/profile/'' @ param_text uid" "''GET''" None]
  by (simp add: getPartnerUsername_def try_catch_def await_def expr_def get_def return_def)

lemma renderChatMessages_loaded:
  assumes "network w = Reply c # rs" "ok c" "status c \<noteq> 204" "body_json c = Inr (JObj ck)"
    and "map_of ck ''messages'' = Some (JArr ms)"
    and "map_all (bubbleHtml (currentUser w)) ms = Inr hs"
  shows "renderChatMessages uid w =
     (Fulfilled (),
      emit (MessagesSet (concat hs))
        ((emit (Fetched ''GET'' (apiBaseUrl @ ''/api/chat/'' @ param_text uid) None) w)\<lparr>network := rs\<rparr>))"
  using apiFetch_json[OF assms(1-4), of "''/api/chat/'' @ param_text uid" "''GET''" None] assms(5,6)
  by (simp add: renderChatMessages_def await_def expr_def destructure_def get_def map_join_def
      and_then_def seq_def return_def emit_def)

lemma sendClick_posted:
  assumes "trim val \<noteq> []" "network w = Reply r # rs" "ok r" "status r = 204 \<or> body_json r = Inr j"
  shows "sendClick uid val w =
     (Fulfilled (),
      snd (renderChat uid
        ((emit (Fetched ''POST'' (apiBaseUrl @ ''/api/message/'' @ param_text uid)
                 (Some (''{'' @ [CHR 0x22] @ ''text'' @ [CHR 0x22] @ '':'' @ json_quote (trim val) @ ''}'')))
            (emit InputDisabled w))\<lparr>network := rs\<rparr>)))"
proof -
  have "network (emit InputDisabled w) = Reply r # rs"
    using assms(2) by (simp add: network_emit)
  from apiFetch_succeeds[OF this assms(3,4)] obtain x where
    "apiFetch (''/api/message/'' @ param_text uid) ''POST''
       (Some (''{'' @ [CHR 0x22] @ ''text'' @ [CHR 0x22] @ '':'' @ json_quote (trim val) @ ''}''))
       (emit InputDisabled w) =
     (Fulfilled x,
      (emit (Fetched ''POST'' (apiBaseUrl @ ''/api/message/'' @ param_text uid)
               (Some (''{'' @ [CHR 0x22] @ ''text'' @ [CHR 0x22] @ '':'' @ json_quote (trim val) @ ''}'')))
          (emit InputDisabled w))\<lparr>network := rs\<rparr>)"
    by blast
  then show ?thesis
    using assms(1) by (simp add: sendClick_def Let_def seq_def await_def return_def)
qed

lemma renderChat_loaded:
  assumes "network w = Reply p # Reply c # rs"
    and "ok p" "status p \<noteq> 204" "body_json p = Inr (JObj pk)"
    and "map_of pk ''username'' = Some (JStr u)"
    and "ok c" "status c \<noteq> 204" "body_json c = Inr (JObj ck)"
    and "map_of ck ''messages'' = Some (JArr ms)"
    and "map_all (bubbleHtml (currentUser w)) ms = Inr hs"
  shows "fst (renderChat uid w) = Fulfilled () \<and>
         trace (snd (renderChat uid w)) =
           trace w @
           [Invoked Chat [map_option JStr uid],
            Fetched ''GET'' (apiBaseUrl @ ''/api/profile/'' @ param_text uid) None,
            HeaderSet (header (renderHeader (''Chat with '' @ u) True w)),
            ContentSet chatSkeleton,
            Fetched ''GET'' (apiBaseUrl @ ''/api/chat/'' @ param_text uid) None,
            MessagesSet (concat hs)]"
proof -
  let ?w0 = "emit (Invoked Chat [map_option JStr uid]) w"
  let ?w1 = "(emit (Fetched ''GET'' (apiBaseUrl @ ''/api/profile/'' @ param_text uid) None) ?w0)
               \<lparr>network := Reply c # rs\<rparr>"
  let ?w2 = "render chatSkeleton (renderHeader (''Chat with '' @ u) True ?w1)"
  have n0: "network ?w0 = Reply p # Reply c # rs"
    using assms(1) by (simp add: network_emit)
  have g: "getPartnerUsername uid ?w0 = (Fulfilled (Some (JStr u)), ?w1)"
    using getPartnerUsername_found[OF n0 assms(2-4), of uid] assms(5) by simp
  have s: "to_str (Some (JStr u)) = Inr u"
    by (simp add: to_str_def)
  have r: "renderChat uid w = renderChatMessages uid ?w2"
    using g s by (rule renderChat_named)
  have n2: "network ?w2 = Reply c # rs"
    by (simp add: network_simps)
  have u2: "currentUser ?w2 = currentUser w"
    by (simp add: render_def renderHeader_def emit_def Let_def)
  have m: "map_all (bubbleHtml (currentUser ?w2)) ms = Inr hs"
    using assms(10) u2 by simp
  note l = renderChatMessages_loaded[OF n2 assms(6-9) m, of uid]
  show ?thesis
    unfolding r l
    by (simp add: render_def renderHeader_def emit_def Let_def)
qed

lemma invocations_network: "invocations (w\<lparr>network := n\<rparr>) = invocations w"
  by (simp add: invocations_def)

lemma sendClick_invocations:
  assumes "trim val \<noteq> []" "network w = Reply r # rs" "ok r" "status r = 204 \<or> body_json r = Inr j"
  shows "invocations (snd (sendClick uid val w)) = invocations w @ [Chat]"
  by (simp add: sendClick_posted[OF assms] renderChat_frame[OF frame_invocations]
      invocations_emit invocations_network)

lemma profileActionClick_invocations:
  assumes "network w = Reply r # rs" "ok r" "status r = 204 \<or> body_json r = Inr j"
  shows "invocations (snd (profileActionClick uid ''BUTTON'' (Some a) w)) = invocations w @ [Profile]"
proof -
  from apiFetch_succeeds[OF assms] obtain x where
    "apiFetch (if Some a = Some ''add_friend'' then ''/api/friend_request/'' @ param_text uid
               else ''/api/action/'' @ param_text (Some a) @ ''/'' @ param_text uid) ''POST'' None w =
     (Fulfilled x,
      (emit (Fetched ''POST'' (apiBaseUrl @ (if Some a = Some ''add_friend''
               then ''/api/friend_request/'' @ param_text uid
               else ''/api/action/'' @ param_text (Some a) @ ''/'' @ param_text uid)) None) w)
        \<lparr>network := rs\<rparr>)"
    by blast
  then show ?thesis
    by (simp add: profileActionClick_def await_def expr_def replace_underscore_def seq_def
        return_def renderProfile_frame[OF frame_invocations] invocations_emit invocations_network
        split: if_splits)
qed

lemma requestsClick_invocations:
  assumes "a \<noteq> []" "network w = Reply r # rs" "ok r" "status r = 204 \<or> body_json r = Inr j"
  shows "invocations (snd (requestsClick ''BUTTON'' (Some a) uid w)) = invocations w @ [Requests]"
proof -
  from apiFetch_succeeds[OF assms(2-4)] obtain x where
    "apiFetch (''/api/action/'' @ param_text (Some a) @ ''/'' @ param_text uid) ''POST'' None w =
     (Fulfilled x,
      (emit (Fetched ''POST'' (apiBaseUrl @ ''/api/action/'' @ param_text (Some a) @ ''/'' @ param_text uid)
         None) w)\<lparr>network := rs\<rparr>)"
    by blast
  then show ?thesis
    using assms(1)
    by (simp add: requestsClick_def await_def seq_def return_def
        renderRequests_frame[OF frame_invocations] invocations_emit invocations_network)
qed

section \<open>Markup around the action buttons\<close>




lemma action_marker_length: "length action_marker = 13"
  by (simp add: action_marker_def)








section \<open>How a run begins\<close>

lemma trace_emit: "trace (emit e w) = trace w @ [e]"
  by (simp add: emit_def)

lemma trace_renderHeader:
  "trace (renderHeader t b w) = trace w @ [HeaderSet (header (renderHeader t b w))]"
  by (simp add: renderHeader_def emit_def Let_def)

lemma trace_render: "trace (render h w) = trace w @ [ContentSet h]"
  by (simp add: render_def emit_def)

lemma trace_renderLoading:
  "trace (renderLoading w) = trace w @ [ContentSet (content (renderLoading w))]"
  by (simp add: renderLoading_def render_def emit_def)

lemma trace_renderErrorPage: "prefix (trace w) (trace (renderErrorPage t m w))"
  by (simp add: renderErrorPage_def trace_render trace_renderHeader)

lemma header_renderHeader: "header (renderHeader t b w) = header (renderHeader t b w')"
  by (simp add: renderHeader_def emit_def Let_def)

lemma content_renderLoading: "content (renderLoading w) = content (renderLoading w')"
  by (simp add: renderLoading_def render_def emit_def)

lemma grows_return: "grows (return x)"
  by (simp add: grows_def return_def)

lemma grows_pair: "(\<And>w. prefix (trace w) (trace (g w))) \<Longrightarrow> grows (\<lambda>w. (r, g w))"
  by (simp add: grows_def)

lemma grows_seq:
  "(\<And>w. prefix (trace w) (trace (g w))) \<Longrightarrow> grows m \<Longrightarrow> grows (seq g m)"
  unfolding grows_def seq_def by (meson prefix_order.trans)

lemma grows_if:
  "(c \<Longrightarrow> grows a) \<Longrightarrow> (\<not> c \<Longrightarrow> grows b) \<Longrightarrow> grows (if c then a else b)"
  by simp

lemma grows_expr: "(\<And>x. grows (k x)) \<Longrightarrow> grows (expr r k)"
  by (cases r) (simp_all add: grows_def expr_def)

lemma grows_expr_dep: "(\<And>x. grows (k x)) \<Longrightarrow> grows (\<lambda>w. expr (r w) k w)"
  unfolding grows_def expr_def by (auto split: sum.splits)

lemma await_prefix:
  assumes "prefix xs (trace (snd (m w)))" and "\<And>x. grows (k x)"
  shows "prefix xs (trace (snd (await m k w)))"
proof -
  obtain r w' where mw: "m w = (r, w')" by (cases "m w")
  with assms(1) have p: "prefix xs (trace w')" by simp
  show ?thesis
  proof (cases r)
    case (Fulfilled x)
    have "prefix (trace w') (trace (snd (k x w')))"
      using assms(2)[of x] by (simp add: grows_def)
    with p have "prefix xs (trace (snd (k x w')))"
      by (rule prefix_order.trans)
    with mw Fulfilled show ?thesis by (simp add: await_def)
  next
    case (Rejected e)
    with mw p show ?thesis by (simp add: await_def)
  next
    case Pending
    with mw p show ?thesis by (simp add: await_def)
  qed
qed

lemma try_catch_prefix:
  assumes "prefix xs (trace (snd (m w)))" and "\<And>e. grows (h e)"
  shows "prefix xs (trace (snd (try_catch m h w)))"
proof -
  obtain r w' where mw: "m w = (r, w')" by (cases "m w")
  with assms(1) have p: "prefix xs (trace w')" by simp
  show ?thesis
  proof (cases r)
    case (Fulfilled x)
    with mw p show ?thesis by (simp add: try_catch_def)
  next
    case (Rejected e)
    have "prefix (trace w') (trace (snd (h e w')))"
      using assms(2)[of e] by (simp add: grows_def)
    with p have "prefix xs (trace (snd (h e w')))"
      by (rule prefix_order.trans)
    with mw Rejected show ?thesis by (simp add: try_catch_def)
  next
    case Pending
    with mw p show ?thesis by (simp add: try_catch_def)
  qed
qed

lemma seq_prefix:
  "prefix xs (trace (snd (m (g w)))) \<Longrightarrow> prefix xs (trace (snd (seq g m w)))"
  by (simp add: seq_def)

lemma fetch_starts:
  "prefix (trace w @ [Fetched m url b]) (trace (snd (fetch url m b w)))"
  by (simp add: fetch_def emit_def Let_def split: list.splits reply.splits)

lemma apiFetch_starts:
  "prefix (trace w @ [Fetched m (apiBaseUrl @ ep) b]) (trace (snd (apiFetch ep m b w)))"
  unfolding apiFetch_def
  by (intro try_catch_prefix await_prefix fetch_starts grows_if grows_expr grows_pair)
     (simp_all add: trace_renderErrorPage)

lemma renderProfile_starts:
  "prefix (trace w @
      [Invoked Profile [map_option JStr uid],
       HeaderSet (header (renderHeader ''Profile'' True w)),
       ContentSet (content (renderLoading w)),
       Fetched ''GET'' (apiBaseUrl @ ''/api/profile/'' @ param_text uid) None])
     (trace (snd (renderProfile uid w)))"
proof -
  let ?w3 = "renderLoading (renderHeader ''Profile'' True (emit (Invoked Profile [map_option JStr uid]) w))"
  have t: "trace ?w3 = trace w @
      [Invoked Profile [map_option JStr uid],
       HeaderSet (header (renderHeader ''Profile'' True w)),
       ContentSet (content (renderLoading w))]"
    by (simp add: renderLoading_def render_def renderHeader_def emit_def Let_def)
  have "prefix (trace ?w3 @ [Fetched ''GET'' (apiBaseUrl @ ''/api/profile/'' @ param_text uid) None])
     (trace (snd (renderProfile uid w)))"
    unfolding renderProfile_def
    by (intro seq_prefix await_prefix apiFetch_starts grows_expr grows_seq grows_return)
       (simp add: trace_render)
  then show ?thesis by (simp add: t)
qed

lemma renderChatMessages_starts:
  "prefix (trace w @ [Fetched ''GET'' (apiBaseUrl @ ''/api/chat/'' @ param_text uid) None])
     (trace (snd (renderChatMessages uid w)))"
  unfolding renderChatMessages_def
  by (intro await_prefix apiFetch_starts grows_expr grows_expr_dep grows_seq grows_return)
     (simp add: trace_emit)

section \<open>The lookup of the partner\<close>

lemma getPartnerUsername_null:
  "apiFetch (''/api/profile/'' @ param_text uid) ''GET'' None w = (Fulfilled JNull, w1) \<Longrightarrow>
   getPartnerUsername uid w = (Fulfilled (map_option JStr uid), w1)"
  by (simp add: getPartnerUsername_def try_catch_def await_def expr_def get_def return_def)

lemma chatSkeleton_not_error: "chatSkeleton \<noteq> errorPageHtml title msg"
  by (simp add: chatSkeleton_def errorPageHtml_def)

lemma renderChatMessages_pending:
  "network w = [] \<Longrightarrow>
   renderChatMessages uid w =
     (Pending, emit (Fetched ''GET'' (apiBaseUrl @ ''/api/chat/'' @ param_text uid) None) w)"
  by (simp add: renderChatMessages_def await_def apiFetch_pending)

section \<open>The claims\<close>


text \<open>
  Claim C1, as the code has it. \<open>navigateTo\<close> compares the requested page with the
  current entry by the view function and by \<open>JSON.stringify\<close> of the arguments, which on
  lists of strings is equality (\<open>same_page_iff\<close>). Calling it twice in a row with the
  same view and arguments gives the same world as calling it once: the second call
  changes nothing. When the pair is not the current entry, the two calls together push
  exactly one entry and enter the view function exactly once; when it already is, neither
  call does anything.
\<close>

theorem navigateTo_twice:
  "navigateTo p a (navigateTo p a w) = navigateTo p a w \<and>
   (top (navigationStack w) \<noteq> Some (p, a) \<longrightarrow>
      navigationStack (navigateTo p a (navigateTo p a w)) = navigationStack w @ [(p, a)] \<and>
      invocations (navigateTo p a (navigateTo p a w)) = invocations w @ [p]) \<and>
   (top (navigationStack w) = Some (p, a) \<longrightarrow>
      navigateTo p a (navigateTo p a w) = w)"
  by (simp add: navigateTo_skip[OF navigateTo_current] navigateTo_push_stack
        navigateTo_push_invocations same_page_iff navigateTo_skip)

theorem navigateTo_twice_witness:
  "navigationStack (navigateTo Profile [''12345678''] (navigateTo Profile [''12345678''] (startup [])))
     = [(MainMenu, []), (Profile, [''12345678''])] \<and>
   invocations (navigateTo Profile [''12345678''] (navigateTo Profile [''12345678''] (startup [])))
     = [MainMenu, Profile] \<and>
   navigateTo Profile [''12345678''] (navigateTo Profile [''12345678''] (startup []))
     = navigateTo Profile [''12345678''] (startup [])"
proof -
  have s: "navigationStack (startup []) = [(MainMenu, [])]"
    by (rule startup_stack)
  have i: "invocations (startup []) = [MainMenu]"
    by code_simp
  have t: "top (navigationStack (startup [])) \<noteq> Some (Profile, [''12345678''])"
    by (simp add: s top_def)
  note n = navigateTo_twice[of Profile "[''12345678'']" "startup []"]
  from n t have 1: "navigationStack (navigateTo Profile [''12345678'']
      (navigateTo Profile [''12345678''] (startup []))) = navigationStack (startup []) @ [(Profile, [''12345678''])]"
    by blast
  from n t have 2: "invocations (navigateTo Profile [''12345678'']
      (navigateTo Profile [''12345678''] (startup []))) = invocations (startup []) @ [Profile]"
    by blast
  from n have 3: "navigateTo Profile [''12345678''] (navigateTo Profile [''12345678''] (startup []))
     = navigateTo Profile [''12345678''] (startup [])"
    by blast
  show ?thesis
    using 1 2 3 s i by simp
qed

text \<open>
  The claim as worded promises one push and one render for every pair. Right after
  startup the current entry is the main menu, and two calls of
  \<open>navigateTo(renderMainMenu)\<close> push nothing and render nothing.
\<close>

theorem navigateTo_twice_counterexample:
  "navigationStack (startup []) = [(MainMenu, [])] \<and>
   navigationStack (navigateTo MainMenu [] (navigateTo MainMenu [] (startup []))) = [(MainMenu, [])] \<and>
   invocations (startup []) = [MainMenu] \<and>
   invocations (navigateTo MainMenu [] (navigateTo MainMenu [] (startup []))) = [MainMenu]"
proof -
  have s: "navigationStack (startup []) = [(MainMenu, [])]"
    by (rule startup_stack)
  have i: "invocations (startup []) = [MainMenu]"
    by code_simp
  have "navigateTo MainMenu [] (startup []) = startup []"
    by (rule navigateTo_skip) (simp add: s top_def same_page_def)
  then show ?thesis
    using s i by simp
qed

text \<open>
  Claim C2. Once \<open>startup\<close> has pushed the main menu, the navigation stack is not empty
  after any sequence of user actions (\<open>navigateTo\<close>, \<open>goBack\<close> and the bound handlers).
  \<open>goBack\<close> on a stack of one entry pops it, finds the stack empty, and falls back to
  \<open>navigateTo(renderMainMenu)\<close>: the stack then holds the main menu alone, and the main
  menu has been rendered once more.
\<close>

theorem stack_never_empty:
  "navigationStack (startup replies) = [(MainMenu, [])] \<and>
   navigationStack (perform_all as (startup replies)) \<noteq> [] \<and>
   (navigationStack w = [e] \<longrightarrow>
      goBack w = navigateTo MainMenu [] (w\<lparr>navigationStack := []\<rparr>) \<and>
      navigationStack (goBack w) = [(MainMenu, [])] \<and>
      invocations (goBack w) = invocations w @ [MainMenu])"
  using goBack_single[of w e]
  by (simp add: startup_stack perform_all_nonempty)

theorem stack_never_empty_witness:
  "navigationStack (startup []) = [(MainMenu, [])] \<and>
   navigationStack (perform_all [GoBack, NavigateTo Chat [''12345678''], GoBack, GoBack] (startup [])) \<noteq> [] \<and>
   navigationStack (goBack (startup [])) = [(MainMenu, [])] \<and>
   invocations (goBack (startup [])) = [MainMenu, MainMenu]"
proof -
  have inv: "invocations (startup []) = [MainMenu]"
    by code_simp
  note t = stack_never_empty[of "[]" "[GoBack, NavigateTo Chat [''12345678''], GoBack, GoBack]"
      "startup []" "(MainMenu, [])"]
  from t have 1: "navigationStack (startup []) = [(MainMenu, [])]"
    by blast
  from t have 2: "navigationStack
      (perform_all [GoBack, NavigateTo Chat [''12345678''], GoBack, GoBack] (startup [])) \<noteq> []"
    by blast
  from t 1 have 3: "navigationStack (goBack (startup [])) = [(MainMenu, [])]"
    by blast
  from t 1 have 4: "invocations (goBack (startup [])) = invocations (startup []) @ [MainMenu]"
    by blast
  show ?thesis
    using 1 2 3 4 inv by simp
qed



text \<open>
  Claim C4, as the code has it. When the response is not a success, \<open>apiFetch\<close> throws
  an \<open>Error\<close> whose message is the \<open>detail\<close> member of the body converted to a string
  when the body parses as a JSON object with that member, and \<open>HTTP error! Status: \<close>
  followed by the status code when the body does not parse. Before it rethrows, it renders
  the error page titled \<open>API Error\<close> with that message. Every view function whose own
  call this is (the main menu, the chat list, the profile, the friends list, the requests,
  and the conversation request of the chat) and every handler (send, profile action,
  request action) ends rejected there: the error page is the last thing rendered.
\<close>

theorem api_failure:
  assumes "network w = Reply r # rs" and "\<not> ok r"
    and "(body_json r = Inl e \<and> msg = ''HTTP error! Status: '' @ decimal (status r)) \<or>
         (body_json r = Inr (JObj kvs) \<and> map_of kvs ''detail'' = Some v \<and> to_string v = Inr msg)"
  shows
   "apiFetch ep m b w =
      (Rejected (JsError msg),
       renderErrorPage ''API Error'' msg ((emit (Fetched m (apiBaseUrl @ ep) b) w)\<lparr>network := rs\<rparr>)) \<and>
    fst (renderMainMenu w) = Rejected (JsError msg) \<and>
    error_page_shown ''API Error'' msg (snd (renderMainMenu w)) \<and>
    fst (renderChatList w) = Rejected (JsError msg) \<and>
    error_page_shown ''API Error'' msg (snd (renderChatList w)) \<and>
    fst (renderProfile uid w) = Rejected (JsError msg) \<and>
    error_page_shown ''API Error'' msg (snd (renderProfile uid w)) \<and>
    fst (renderFriendsList w) = Rejected (JsError msg) \<and>
    error_page_shown ''API Error'' msg (snd (renderFriendsList w)) \<and>
    fst (renderRequests w) = Rejected (JsError msg) \<and>
    error_page_shown ''API Error'' msg (snd (renderRequests w)) \<and>
    fst (renderChatMessages uid w) = Rejected (JsError msg) \<and>
    error_page_shown ''API Error'' msg (snd (renderChatMessages uid w)) \<and>
    (trim val \<noteq> [] \<longrightarrow>
       fst (sendClick uid val w) = Rejected (JsError msg) \<and>
       error_page_shown ''API Error'' msg (snd (sendClick uid val w))) \<and>
    fst (profileActionClick uid ''BUTTON'' a w) = Rejected (JsError msg) \<and>
    error_page_shown ''API Error'' msg (snd (profileActionClick uid ''BUTTON'' a w)) \<and>
    (a \<noteq> None \<and> a \<noteq> Some [] \<longrightarrow>
       fst (requestsClick ''BUTTON'' a uid w) = Rejected (JsError msg) \<and>
       error_page_shown ''API Error'' msg (snd (requestsClick ''BUTTON'' a uid w)))"
proof -
  note fc = failing_call[OF _ assms(2,3)]
  have n: "\<And>f. network (f w) = network w \<Longrightarrow> network (f w) = Reply r # rs"
    using assms(1) by simp
  have 0: "apiFetch ep m b w =
      (Rejected (JsError msg),
       renderErrorPage ''API Error'' msg ((emit (Fetched m (apiBaseUrl @ ep) b) w)\<lparr>network := rs\<rparr>))"
    by (rule apiFetch_failure[OF assms])
  have 1: "fst (renderMainMenu w) = Rejected (JsError msg) \<and>
           error_page_shown ''API Error'' msg (snd (renderMainMenu w))"
  proof -
    have "network (renderLoading (renderHeader ''Gadwa App'' False (emit (Invoked MainMenu []) w)))
            = Reply r # rs"
      using assms(1) by (simp add: network_simps)
    from fc[OF this] obtain w1 where
      a: "apiFetch ''/api/me'' ''GET'' None
         (renderLoading (renderHeader ''Gadwa App'' False (emit (Invoked MainMenu []) w)))
         = (Rejected (JsError msg), w1)" and s: "error_page_shown ''API Error'' msg w1"
      by blast
    from a have v: "renderMainMenu w = (Rejected (JsError msg), w1)"
      by (rule renderMainMenu_abort)
    from v s show ?thesis by (rule aborted)
  qed
  have 2: "fst (renderChatList w) = Rejected (JsError msg) \<and>
           error_page_shown ''API Error'' msg (snd (renderChatList w))"
  proof -
    have "network (renderLoading (renderHeader ''Chats'' True (emit (Invoked ChatList []) w)))
            = Reply r # rs"
      using assms(1) by (simp add: network_simps)
    from fc[OF this] obtain w1 where
      a: "apiFetch ''/api/chats'' ''GET'' None
         (renderLoading (renderHeader ''Chats'' True (emit (Invoked ChatList []) w)))
         = (Rejected (JsError msg), w1)" and s: "error_page_shown ''API Error'' msg w1"
      by blast
    from a have v: "renderChatList w = (Rejected (JsError msg), w1)"
      by (rule renderChatList_abort)
    from v s show ?thesis by (rule aborted)
  qed
  have 3: "fst (renderProfile uid w) = Rejected (JsError msg) \<and>
           error_page_shown ''API Error'' msg (snd (renderProfile uid w))"
  proof -
    have "network (renderLoading (renderHeader ''Profile'' True
            (emit (Invoked Profile [map_option JStr uid]) w))) = Reply r # rs"
      using assms(1) by (simp add: network_simps)
    from fc[OF this] obtain w1 where
      a: "apiFetch (''/api/profile/'' @ param_text uid) ''GET'' None
         (renderLoading (renderHeader ''Profile'' True (emit (Invoked Profile [map_option JStr uid]) w)))
         = (Rejected (JsError msg), w1)" and s: "error_page_shown ''API Error'' msg w1"
      by blast
    from a have v: "renderProfile uid w = (Rejected (JsError msg), w1)"
      by (rule renderProfile_abort)
    from v s show ?thesis by (rule aborted)
  qed
  have 4: "fst (renderFriendsList w) = Rejected (JsError msg) \<and>
           error_page_shown ''API Error'' msg (snd (renderFriendsList w))"
  proof -
    have "network (renderLoading (renderHeader ''Friends'' True (emit (Invoked FriendsList []) w)))
            = Reply r # rs"
      using assms(1) by (simp add: network_simps)
    from fc[OF this] obtain w1 where
      a: "apiFetch ''/api/friends'' ''GET'' None
         (renderLoading (renderHeader ''Friends'' True (emit (Invoked FriendsList []) w)))
         = (Rejected (JsError msg), w1)" and s: "error_page_shown ''API Error'' msg w1"
      by blast
    from a have v: "renderFriendsList w = (Rejected (JsError msg), w1)"
      by (rule renderFriendsList_abort)
    from v s show ?thesis by (rule aborted)
  qed
  have 5: "fst (renderRequests w) = Rejected (JsError msg) \<and>
           error_page_shown ''API Error'' msg (snd (renderRequests w))"
  proof -
    have "network (renderLoading (renderHeader ''Friend Requests'' True (emit (Invoked Requests []) w)))
            = Reply r # rs"
      using assms(1) by (simp add: network_simps)
    from fc[OF this] obtain w1 where
      a: "apiFetch ''/api/requests'' ''GET'' None
         (renderLoading (renderHeader ''Friend Requests'' True (emit (Invoked Requests []) w)))
         = (Rejected (JsError msg), w1)" and s: "error_page_shown ''API Error'' msg w1"
      by blast
    from a have v: "renderRequests w = (Rejected (JsError msg), w1)"
      by (rule renderRequests_abort)
    from v s show ?thesis by (rule aborted)
  qed
  have 6: "fst (renderChatMessages uid w) = Rejected (JsError msg) \<and>
           error_page_shown ''API Error'' msg (snd (renderChatMessages uid w))"
  proof -
    from fc[OF assms(1)] obtain w1 where
      a: "apiFetch (''/api/chat/'' @ param_text uid) ''GET'' None w = (Rejected (JsError msg), w1)"
      and s: "error_page_shown ''API Error'' msg w1"
      by blast
    from a have v: "renderChatMessages uid w = (Rejected (JsError msg), w1)"
      by (rule renderChatMessages_abort)
    from v s show ?thesis by (rule aborted)
  qed
  have 7: "trim val \<noteq> [] \<longrightarrow>
       fst (sendClick uid val w) = Rejected (JsError msg) \<and>
       error_page_shown ''API Error'' msg (snd (sendClick uid val w))"
  proof
    assume t: "trim val \<noteq> []"
    have "network (emit InputDisabled w) = Reply r # rs"
      using assms(1) by (simp add: network_simps)
    from fc[OF this] obtain w1 where
      a: "apiFetch (''/api/message/'' @ param_text uid) ''POST''
         (Some (''{'' @ [CHR 0x22] @ ''text'' @ [CHR 0x22] @ '':'' @ json_quote (trim val) @ ''}''))
         (emit InputDisabled w) = (Rejected (JsError msg), w1)"
      and s: "error_page_shown ''API Error'' msg w1"
      by blast
    from a have v: "sendClick uid val w = (Rejected (JsError msg), w1)"
      using t by (intro sendClick_abort)
    show "fst (sendClick uid val w) = Rejected (JsError msg) \<and>
       error_page_shown ''API Error'' msg (snd (sendClick uid val w))"
      using v s by (intro aborted)
  qed
  have 8: "fst (profileActionClick uid ''BUTTON'' a w) = Rejected (JsError msg) \<and>
    error_page_shown ''API Error'' msg (snd (profileActionClick uid ''BUTTON'' a w))"
  proof -
    from fc[OF assms(1)] obtain w1 where
      a: "apiFetch (if a = Some ''add_friend'' then ''/api/friend_request/'' @ param_text uid
             else ''/api/action/'' @ param_text a @ ''/'' @ param_text uid) ''POST'' None w
         = (Rejected (JsError msg), w1)"
      and s: "error_page_shown ''API Error'' msg w1"
      by blast
    from a have v: "profileActionClick uid ''BUTTON'' a w = (Rejected (JsError msg), w1)"
      by (rule profileActionClick_abort)
    from v s show ?thesis by (rule aborted)
  qed
  have 9: "a \<noteq> None \<and> a \<noteq> Some [] \<longrightarrow>
       fst (requestsClick ''BUTTON'' a uid w) = Rejected (JsError msg) \<and>
       error_page_shown ''API Error'' msg (snd (requestsClick ''BUTTON'' a uid w))"
  proof
    assume t: "a \<noteq> None \<and> a \<noteq> Some []"
    from fc[OF assms(1)] obtain w1 where
      a: "apiFetch (''/api/action/'' @ param_text a @ ''/'' @ param_text uid) ''POST'' None w
         = (Rejected (JsError msg), w1)"
      and s: "error_page_shown ''API Error'' msg w1"
      by blast
    from a have v: "requestsClick ''BUTTON'' a uid w = (Rejected (JsError msg), w1)"
      using t by (intro requestsClick_abort) simp_all
    show "fst (requestsClick ''BUTTON'' a uid w) = Rejected (JsError msg) \<and>
       error_page_shown ''API Error'' msg (snd (requestsClick ''BUTTON'' a uid w))"
      using v s by (intro aborted)
  qed
  show ?thesis
    using 0 1 2 3 4 5 6 7 8 9 by blast
qed

theorem api_failure_witness:
  "fst (apiFetch ''/api/me'' ''GET'' None
      (initial [Reply \<lparr>status = 404, body_json = Inr (JObj [(''detail'', JStr ''not found'')])\<rparr>]))
     = Rejected (JsError ''not found'') \<and>
   fst (renderProfile (Some ''12345678'')
      (initial [Reply \<lparr>status = 404, body_json = Inr (JObj [(''detail'', JStr ''not found'')])\<rparr>]))
     = Rejected (JsError ''not found'') \<and>
   content (snd (renderProfile (Some ''12345678'')
      (initial [Reply \<lparr>status = 404, body_json = Inr (JObj [(''detail'', JStr ''not found'')])\<rparr>])))
     = errorPageHtml ''API Error'' ''not found'' \<and>
   last (trace (snd (renderProfile (Some ''12345678'')
      (initial [Reply \<lparr>status = 404, body_json = Inr (JObj [(''detail'', JStr ''not found'')])\<rparr>]))))
     = ContentSet (errorPageHtml ''API Error'' ''not found'') \<and>
   fst (sendClick (Some ''12345678'') ''hello''
      (initial [Reply \<lparr>status = 404, body_json = Inr (JObj [(''detail'', JStr ''not found'')])\<rparr>]))
     = Rejected (JsError ''not found'') \<and>
   fst (requestsClick ''BUTTON'' (Some ''accept_friend'') (Some ''12345678'')
      (initial [Reply \<lparr>status = 404, body_json = Inr (JObj [(''detail'', JStr ''not found'')])\<rparr>]))
     = Rejected (JsError ''not found'')"
proof -
  let ?r = "\<lparr>status = 404, body_json = Inr (JObj [(''detail'', JStr ''not found'')])\<rparr>"
  have h1: "network (initial [Reply ?r]) = Reply ?r # []"
    by (simp add: initial_def)
  have h2: "\<not> ok ?r"
    by (simp add: ok_def)
  have h3: "(body_json ?r = Inl (JsError []) \<and> ''not found'' = ''HTTP error! Status: '' @ decimal (status ?r)) \<or>
            (body_json ?r = Inr (JObj [(''detail'', JStr ''not found'')]) \<and>
             map_of [(''detail'', JStr ''not found'')] ''detail'' = Some (JStr ''not found'') \<and>
             to_string (JStr ''not found'') = Inr ''not found'')"
    by simp
  have h4: "trim ''hello'' \<noteq> []"
    by code_simp
  have h5: "Some ''accept_friend'' \<noteq> None \<and> Some ''accept_friend'' \<noteq> Some []"
    by simp
  note t = api_failure[OF h1 h2 h3, where ep = "''/api/me''" and m = "''GET''" and b = None
      and uid = "Some ''12345678''" and val = "''hello''" and a = "Some ''accept_friend''"]
  from t h4 h5 show ?thesis
    by (simp add: error_page_shown_def)
qed

text \<open>
  The claim as worded fails twice. The generic message is \<open>HTTP error! Status: 500\<close>,
  not \<open>HTTP error, status=500\<close>. And the call need not end the view: when the profile
  lookup of \<open>renderChat\<close> gets a 404, the error page is rendered, and then the view goes on
  to render the chat header, the skeleton and the messages.
\<close>

theorem api_failure_counterexample:
  "fst (apiFetch ''/api/me'' ''GET'' None
      (initial [Reply \<lparr>status = 500, body_json = Inl (JsSyntaxError ''Unexpected token'')\<rparr>]))
     = Rejected (JsError ''HTTP error! Status: 500'') \<and>
   ''HTTP error! Status: 500'' \<noteq> ''HTTP error, status=500'' \<and>
   fst (renderChat (Some ''12345678'')
      (initial [Reply \<lparr>status = 404, body_json = Inr (JObj [(''detail'', JStr ''not found'')])\<rparr>,
                Reply \<lparr>status = 200, body_json = Inr (JObj [(''messages'', JArr [])])\<rparr>]))
     = Fulfilled () \<and>
   trace (snd (renderChat (Some ''12345678'')
      (initial [Reply \<lparr>status = 404, body_json = Inr (JObj [(''detail'', JStr ''not found'')])\<rparr>,
                Reply \<lparr>status = 200, body_json = Inr (JObj [(''messages'', JArr [])])\<rparr>])))
     = [Invoked Chat [Some (JStr ''12345678'')],
        Fetched ''GET'' ''http://127.0.0.1:8000/api/profile/12345678'' None,
        HeaderSet (header (renderHeader ''Error'' False (initial []))),
        ContentSet (errorPageHtml ''API Error'' ''not found''),
        HeaderSet (header (renderHeader ''Chat with 12345678'' True (initial []))),
        ContentSet chatSkeleton,
        Fetched ''GET'' ''http://127.0.0.1:8000/api/chat/12345678'' None,
        MessagesSet []]"
  by code_simp

text \<open>
  Claim C5. The search action splits what the prompt returns three ways: eight digits
  make it call \<open>navigateTo(renderProfile, uid)\<close>, after which the profile of that
  identifier is the current entry; any other non-empty text makes it show the validation
  alert and nothing else; the empty text and a cancelled prompt make it do nothing. (The
  popup the action opens is recorded in each case.) For eight digits, unless that profile
  already is the current entry, the navigation pushes the entry, enters \<open>renderProfile\<close>
  with the identifier, renders the profile header and the loader, and requests the
  profile of that identifier; if it already is, nothing more happens.
\<close>

theorem search_partitions_input:
  "(eight_digits u \<longrightarrow>
      handleSearch (Some u) w = navigateTo Profile [u] (emit PopupShown w) \<and>
      top (navigationStack (handleSearch (Some u) w)) = Some (Profile, [u]) \<and>
      (top (navigationStack w) \<noteq> Some (Profile, [u]) \<longrightarrow>
         navigationStack (handleSearch (Some u) w) = navigationStack w @ [(Profile, [u])] \<and>
         prefix
           (trace w @
            [PopupShown,
             Invoked Profile [Some (JStr u)],
             HeaderSet (header (renderHeader ''Profile'' True w)),
             ContentSet (content (renderLoading w)),
             Fetched ''GET'' (apiBaseUrl @ ''/api/profile/'' @ u) None])
           (trace (handleSearch (Some u) w))) \<and>
      (top (navigationStack w) = Some (Profile, [u]) \<longrightarrow>
         handleSearch (Some u) w = emit PopupShown w)) \<and>
   (u \<noteq> [] \<and> \<not> eight_digits u \<longrightarrow>
      handleSearch (Some u) w =
        emit (Alerted ''Invalid UID format. Please enter 8 digits.'') (emit PopupShown w)) \<and>
   handleSearch (Some []) w = emit PopupShown w \<and>
   handleSearch None w = emit PopupShown w"
proof -
  let ?p = "emit PopupShown w"
  have h: "handleSearch (Some u) w = navigateTo Profile [u] ?p" if e: "eight_digits u"
  proof -
    from e have "u \<noteq> []" by (auto simp: eight_digits_def)
    with e show ?thesis
      by (simp add: handleSearch_def searchCallback_def trim_eight_digits)
  qed
  have 1: "handleSearch (Some u) w = navigateTo Profile [u] ?p \<and>
           top (navigationStack (handleSearch (Some u) w)) = Some (Profile, [u])"
    if e: "eight_digits u"
    using navigateTo_current[of Profile "[u]" ?p] h[OF e]
    by (simp add: same_page_iff)
  have 5: "navigationStack (handleSearch (Some u) w) = navigationStack w @ [(Profile, [u])] \<and>
         prefix
           (trace w @
            [PopupShown,
             Invoked Profile [Some (JStr u)],
             HeaderSet (header (renderHeader ''Profile'' True w)),
             ContentSet (content (renderLoading w)),
             Fetched ''GET'' (apiBaseUrl @ ''/api/profile/'' @ u) None])
           (trace (handleSearch (Some u) w))"
    if e: "eight_digits u" and n: "top (navigationStack w) \<noteq> Some (Profile, [u])"
  proof -
    let ?q = "?p\<lparr>navigationStack := navigationStack ?p @ [(Profile, [u])]\<rparr>"
    have g: "\<not> same_page (top (navigationStack ?p)) Profile [u]"
      using n by (simp add: same_page_iff navigationStack_emit)
    have s: "navigationStack (handleSearch (Some u) w) = navigationStack w @ [(Profile, [u])]"
      using navigateTo_push_stack[OF g] h[OF e] by (simp add: navigationStack_emit)
    have r: "handleSearch (Some u) w = snd (renderProfile (Some u) ?q)"
      using navigateTo_push[OF g] h[OF e] by (simp add: arg0_def)
    have t: "trace ?q = trace w @ [PopupShown]"
      by (simp add: emit_def)
    have hq: "header (renderHeader ''Profile'' True ?q) = header (renderHeader ''Profile'' True w)"
      by (rule header_renderHeader)
    have cq: "content (renderLoading ?q) = content (renderLoading w)"
      by (rule content_renderLoading)
    from renderProfile_starts[of ?q "Some u"]
    have "prefix
           (trace w @
            [PopupShown,
             Invoked Profile [Some (JStr u)],
             HeaderSet (header (renderHeader ''Profile'' True w)),
             ContentSet (content (renderLoading w)),
             Fetched ''GET'' (apiBaseUrl @ ''/api/profile/'' @ u) None])
           (trace (snd (renderProfile (Some u) ?q)))"
      unfolding t hq cq by (simp add: param_text_def)
    with s r show ?thesis by simp
  qed
  have 6: "handleSearch (Some u) w = emit PopupShown w"
    if e: "eight_digits u" and c: "top (navigationStack w) = Some (Profile, [u])"
    using h[OF e] c
    by (simp add: navigateTo_skip same_page_iff navigationStack_emit)
  have 2: "u \<noteq> [] \<and> \<not> eight_digits u \<longrightarrow>
      handleSearch (Some u) w =
        emit (Alerted ''Invalid UID format. Please enter 8 digits.'') (emit PopupShown w)"
    by (simp add: handleSearch_def searchCallback_def)
  have 3: "handleSearch (Some []) w = emit PopupShown w"
    by (simp add: handleSearch_def searchCallback_def)
  have 4: "handleSearch None w = emit PopupShown w"
    by (simp add: handleSearch_def searchCallback_def)
  show ?thesis
    using 1 2 3 4 5 6 by blast
qed

theorem search_partitions_input_witness:
  "navigationStack (handleSearch (Some ''12345678'') (startup []))
     = [(MainMenu, []), (Profile, [''12345678''])] \<and>
   prefix
     (trace (startup []) @
      [PopupShown,
       Invoked Profile [Some (JStr ''12345678'')],
       HeaderSet (header (renderHeader ''Profile'' True (startup []))),
       ContentSet (content (renderLoading (startup []))),
       Fetched ''GET'' ''http://127.0.0.1:8000/api/profile/12345678'' None])
     (trace (handleSearch (Some ''12345678'') (startup []))) \<and>
   handleSearch (Some ''12345678'') (handleSearch (Some ''12345678'') (startup []))
     = emit PopupShown (handleSearch (Some ''12345678'') (startup [])) \<and>
   handleSearch (Some ''1234'') (startup [])
     = emit (Alerted ''Invalid UID format. Please enter 8 digits.'') (emit PopupShown (startup [])) \<and>
   navigationStack (handleSearch (Some ''1234'') (startup [])) = [(MainMenu, [])] \<and>
   handleSearch (Some []) (startup []) = emit PopupShown (startup []) \<and>
   handleSearch None (startup []) = emit PopupShown (startup [])"
proof -
  let ?s = "handleSearch (Some ''12345678'') (startup [])"
  have d8: "eight_digits ''12345678''"
    by code_simp
  have d4: "''1234'' \<noteq> [] \<and> \<not> eight_digits ''1234''"
    by code_simp
  have s: "navigationStack (startup []) = [(MainMenu, [])]"
    by (rule startup_stack)
  have p: "top (navigationStack (startup [])) \<noteq> Some (Profile, [''12345678''])"
    by (simp add: s top_def)
  note a = search_partitions_input[of "''12345678''" "startup []"]
  note b = search_partitions_input[of "''1234''" "startup []"]
  note c = search_partitions_input[of "''12345678''" ?s]
  from a d8 p have 1: "navigationStack ?s = navigationStack (startup []) @ [(Profile, [''12345678''])]"
    by blast
  from a d8 p have 5: "prefix
     (trace (startup []) @
      [PopupShown,
       Invoked Profile [Some (JStr ''12345678'')],
       HeaderSet (header (renderHeader ''Profile'' True (startup []))),
       ContentSet (content (renderLoading (startup []))),
       Fetched ''GET'' (apiBaseUrl @ ''/api/profile/'' @ ''12345678'') None])
     (trace ?s)"
    by blast
  have q: "top (navigationStack ?s) = Some (Profile, [''12345678''])"
    using 1 by (simp add: top_def)
  from c d8 q have 6: "handleSearch (Some ''12345678'') ?s = emit PopupShown ?s"
    by blast
  from b d4 have 2: "handleSearch (Some ''1234'') (startup [])
      = emit (Alerted ''Invalid UID format. Please enter 8 digits.'') (emit PopupShown (startup []))"
    by blast
  from b have 3: "handleSearch (Some []) (startup []) = emit PopupShown (startup [])"
    and 4: "handleSearch None (startup []) = emit PopupShown (startup [])"
    by blast+
  show ?thesis
    using 1 2 3 4 5 6 s by (simp add: navigationStack_emit apiBaseUrl_def)
qed

text \<open>
  Claim C6, as the code has it. When the response is a success: a 204 makes \<open>apiFetch\<close>
  return \<open>null\<close> without reading the body; any other success status makes it parse the
  body as JSON and return it when it parses. When the body of such a response does not
  parse, the error of \<open>response.json()\<close> is thrown inside the \<open>try\<close>: \<open>apiFetch\<close> renders
  the error page with its message and rejects with it.
\<close>

theorem apiFetch_success:
  "network w = Reply r # rs \<Longrightarrow> ok r \<Longrightarrow>
   (status r = 204 \<longrightarrow>
      apiFetch ep m b w =
        (Fulfilled JNull, (emit (Fetched m (apiBaseUrl @ ep) b) w)\<lparr>network := rs\<rparr>)) \<and>
   (status r \<noteq> 204 \<longrightarrow> body_json r = Inr j \<longrightarrow>
      apiFetch ep m b w =
        (Fulfilled j, (emit (Fetched m (apiBaseUrl @ ep) b) w)\<lparr>network := rs\<rparr>)) \<and>
   (status r \<noteq> 204 \<longrightarrow> body_json r = Inl e \<longrightarrow>
      apiFetch ep m b w =
        (Rejected e,
         renderErrorPage ''API Error'' (message e)
           ((emit (Fetched m (apiBaseUrl @ ep) b) w)\<lparr>network := rs\<rparr>)))"
  by (simp add: apiFetch_204 apiFetch_json apiFetch_unparsed)

theorem apiFetch_success_witness:
  "fst (apiFetch ''/api/action/block/12345678'' ''POST'' None
      (initial [Reply \<lparr>status = 204, body_json = Inl (JsSyntaxError ''Unexpected end of JSON input'')\<rparr>]))
     = Fulfilled JNull \<and>
   fst (apiFetch ''/api/friends'' ''GET'' None
      (initial [Reply \<lparr>status = 200, body_json = Inr (JArr [])\<rparr>]))
     = Fulfilled (JArr []) \<and>
   fst (apiFetch ''/api/friends'' ''GET'' None
      (initial [Reply \<lparr>status = 200, body_json = Inl (JsSyntaxError ''Unexpected end of JSON input'')\<rparr>]))
     = Rejected (JsSyntaxError ''Unexpected end of JSON input'')"
  using
    apiFetch_success[of "initial [Reply \<lparr>status = 204, body_json = Inl (JsSyntaxError ''Unexpected end of JSON input'')\<rparr>]"
      "\<lparr>status = 204, body_json = Inl (JsSyntaxError ''Unexpected end of JSON input'')\<rparr>" "[]"
      "''/api/action/block/12345678''" "''POST''" None JNull "JsError []"]
    apiFetch_success[of "initial [Reply \<lparr>status = 200, body_json = Inr (JArr [])\<rparr>]"
      "\<lparr>status = 200, body_json = Inr (JArr [])\<rparr>" "[]"
      "''/api/friends''" "''GET''" None "JArr []" "JsError []"]
    apiFetch_success[of "initial [Reply \<lparr>status = 200, body_json = Inl (JsSyntaxError ''Unexpected end of JSON input'')\<rparr>]"
      "\<lparr>status = 200, body_json = Inl (JsSyntaxError ''Unexpected end of JSON input'')\<rparr>" "[]"
      "''/api/friends''" "''GET''" None JNull "JsSyntaxError ''Unexpected end of JSON input''"]
  by (simp add: initial_def ok_def)

text \<open>
  The claim as worded promises a returned body for every success that is not a 204. A
  200, or a 205, whose body is empty is a success; \<open>apiFetch\<close> rejects with the parse
  error, and the error page is what the display holds.
\<close>

theorem apiFetch_success_counterexample:
  "ok \<lparr>status = 200, body_json = Inl (JsSyntaxError ''Unexpected end of JSON input'')\<rparr> \<and>
   fst (apiFetch ''/api/friends'' ''GET'' None
      (initial [Reply \<lparr>status = 200, body_json = Inl (JsSyntaxError ''Unexpected end of JSON input'')\<rparr>]))
     = Rejected (JsSyntaxError ''Unexpected end of JSON input'') \<and>
   content (snd (apiFetch ''/api/friends'' ''GET'' None
      (initial [Reply \<lparr>status = 200, body_json = Inl (JsSyntaxError ''Unexpected end of JSON input'')\<rparr>])))
     = errorPageHtml ''API Error'' ''Unexpected end of JSON input'' \<and>
   ok \<lparr>status = 205, body_json = Inl (JsSyntaxError ''Unexpected end of JSON input'')\<rparr> \<and>
   fst (apiFetch ''/api/action/block/12345678'' ''POST'' None
      (initial [Reply \<lparr>status = 205, body_json = Inl (JsSyntaxError ''Unexpected end of JSON input'')\<rparr>]))
     = Rejected (JsSyntaxError ''Unexpected end of JSON input'')"
  by code_simp

text \<open>
  Claim C7. The lookup of the partner's profile fails when its \<open>apiFetch\<close> is rejected,
  or when it returns \<open>null\<close> (a 204), on which \<open>profile.username\<close> throws. Either way
  \<open>getPartnerUsername\<close> catches the error and returns the raw partner identifier, so
  nothing is propagated to \<open>renderChat\<close>. Its rendering continues: the header
  \<open>Chat with\<close> followed by the identifier, then the skeleton, then the request of the
  conversation. What the user is shown is what the display holds when the run waits:
  there, and when no reply to that request ever comes, the header and the content are
  those of the chat, and no error page is shown.
\<close>

theorem lookup_failure_swallowed:
  assumes "apiFetch (''/api/profile/'' @ param_text uid) ''GET'' None
             (emit (Invoked Chat [map_option JStr uid]) w) = (Rejected e, w1) \<or>
           apiFetch (''/api/profile/'' @ param_text uid) ''GET'' None
             (emit (Invoked Chat [map_option JStr uid]) w) = (Fulfilled JNull, w1)"
  shows "getPartnerUsername uid (emit (Invoked Chat [map_option JStr uid]) w)
           = (Fulfilled (map_option JStr uid), w1) \<and>
         renderChat uid w =
           renderChatMessages uid
             (render chatSkeleton (renderHeader (''Chat with '' @ param_text uid) True w1)) \<and>
         header (render chatSkeleton (renderHeader (''Chat with '' @ param_text uid) True w1))
           = header (renderHeader (''Chat with '' @ param_text uid) True w) \<and>
         content (render chatSkeleton (renderHeader (''Chat with '' @ param_text uid) True w1))
           = chatSkeleton \<and>
         \<not> error_page_shown title msg
             (render chatSkeleton (renderHeader (''Chat with '' @ param_text uid) True w1)) \<and>
         prefix
           (trace w1 @
            [HeaderSet (header (renderHeader (''Chat with '' @ param_text uid) True w)),
             ContentSet chatSkeleton,
             Fetched ''GET'' (apiBaseUrl @ ''/api/chat/'' @ param_text uid) None])
           (trace (snd (renderChat uid w))) \<and>
         (network w1 = [] \<longrightarrow>
            renderChat uid w =
              (Pending,
               emit (Fetched ''GET'' (apiBaseUrl @ ''/api/chat/'' @ param_text uid) None)
                 (render chatSkeleton
                    (renderHeader (''Chat with '' @ param_text uid) True w1))))"
proof -
  let ?w2 = "render chatSkeleton (renderHeader (''Chat with '' @ param_text uid) True w1)"
  have 1: "getPartnerUsername uid (emit (Invoked Chat [map_option JStr uid]) w)
           = (Fulfilled (map_option JStr uid), w1)"
    using assms getPartnerUsername_swallows getPartnerUsername_null by blast
  have 2: "renderChat uid w = renderChatMessages uid ?w2"
    using 1 to_str_param by (rule renderChat_named)
  have 3: "header ?w2 = header (renderHeader (''Chat with '' @ param_text uid) True w)"
    by (simp add: render_def renderHeader_def emit_def Let_def)
  have 4: "content ?w2 = chatSkeleton"
    by (simp add: render_def emit_def)
  have 5: "\<not> error_page_shown title msg ?w2"
    using 4 chatSkeleton_not_error[of title msg] by (simp add: error_page_shown_def)
  have t: "trace ?w2 = trace w1 @
            [HeaderSet (header (renderHeader (''Chat with '' @ param_text uid) True w)),
             ContentSet chatSkeleton]"
    by (simp add: render_def renderHeader_def emit_def Let_def)
  have 6: "prefix
           (trace w1 @
            [HeaderSet (header (renderHeader (''Chat with '' @ param_text uid) True w)),
             ContentSet chatSkeleton,
             Fetched ''GET'' (apiBaseUrl @ ''/api/chat/'' @ param_text uid) None])
           (trace (snd (renderChat uid w)))"
    using renderChatMessages_starts[of ?w2 uid] unfolding 2 t by simp
  have 7: "network w1 = [] \<longrightarrow>
            renderChat uid w =
              (Pending,
               emit (Fetched ''GET'' (apiBaseUrl @ ''/api/chat/'' @ param_text uid) None) ?w2)"
  proof
    assume "network w1 = []"
    then have "network ?w2 = []"
      by (simp add: network_simps)
    then show "renderChat uid w =
              (Pending,
               emit (Fetched ''GET'' (apiBaseUrl @ ''/api/chat/'' @ param_text uid) None) ?w2)"
      unfolding 2 by (rule renderChatMessages_pending)
  qed
  show ?thesis
    using 1 2 3 4 5 6 7 by blast
qed

theorem lookup_failure_swallowed_witness:
  "fst (getPartnerUsername (Some ''12345678'')
      (emit (Invoked Chat [Some (JStr ''12345678'')])
        (initial [Reply \<lparr>status = 404, body_json = Inr (JObj [(''detail'', JStr ''not found'')])\<rparr>])))
     = Fulfilled (Some (JStr ''12345678'')) \<and>
   fst (renderChat (Some ''12345678'')
      (initial [Reply \<lparr>status = 404, body_json = Inr (JObj [(''detail'', JStr ''not found'')])\<rparr>]))
     = Pending \<and>
   header (snd (renderChat (Some ''12345678'')
      (initial [Reply \<lparr>status = 404, body_json = Inr (JObj [(''detail'', JStr ''not found'')])\<rparr>])))
     = header (renderHeader ''Chat with 12345678'' True (initial [])) \<and>
   content (snd (renderChat (Some ''12345678'')
      (initial [Reply \<lparr>status = 404, body_json = Inr (JObj [(''detail'', JStr ''not found'')])\<rparr>])))
     = chatSkeleton \<and>
   fst (getPartnerUsername (Some ''12345678'')
      (emit (Invoked Chat [Some (JStr ''12345678'')])
        (initial [Reply \<lparr>status = 204, body_json = Inl (JsSyntaxError ''Unexpected end of JSON input'')\<rparr>])))
     = Fulfilled (Some (JStr ''12345678'')) \<and>
   content (snd (renderChat (Some ''12345678'')
      (initial [Reply \<lparr>status = 204, body_json = Inl (JsSyntaxError ''Unexpected end of JSON input'')\<rparr>])))
     = chatSkeleton"
proof -
  let ?w = "initial [Reply \<lparr>status = 404, body_json = Inr (JObj [(''detail'', JStr ''not found'')])\<rparr>]"
  let ?v = "initial [Reply \<lparr>status = 204, body_json = Inl (JsSyntaxError ''Unexpected end of JSON input'')\<rparr>]"
  let ?call = "\<lambda>w. apiFetch (''/api/profile/'' @ param_text (Some ''12345678'')) ''GET'' None
                 (emit (Invoked Chat [map_option JStr (Some ''12345678'')]) w)"
  have "fst (?call ?w) = Rejected (JsError ''not found'')"
    by code_simp
  then have "?call ?w = (Rejected (JsError ''not found''), snd (?call ?w))"
    by (metis prod.collapse)
  then have h: "?call ?w = (Rejected (JsError ''not found''), snd (?call ?w)) \<or>
                ?call ?w = (Fulfilled JNull, snd (?call ?w))"
    by (rule disjI1)
  have "fst (?call ?v) = Fulfilled JNull"
    by code_simp
  then have "?call ?v = (Fulfilled JNull, snd (?call ?v))"
    by (metis prod.collapse)
  then have k: "?call ?v = (Rejected (JsError []), snd (?call ?v)) \<or>
                ?call ?v = (Fulfilled JNull, snd (?call ?v))"
    by (rule disjI2)
  have n: "network (snd (?call ?w)) = []" "network (snd (?call ?v)) = []"
    by code_simp+
  note t = lookup_failure_swallowed[OF h]
  note u = lookup_failure_swallowed[OF k]
  from t have 1: "fst (getPartnerUsername (Some ''12345678'')
      (emit (Invoked Chat [Some (JStr ''12345678'')]) ?w)) = Fulfilled (Some (JStr ''12345678''))"
    by simp
  from u have 5: "fst (getPartnerUsername (Some ''12345678'')
      (emit (Invoked Chat [Some (JStr ''12345678'')]) ?v)) = Fulfilled (Some (JStr ''12345678''))"
    by simp
  from t n(1) have r: "renderChat (Some ''12345678'') ?w =
      (Pending,
       emit (Fetched ''GET'' (apiBaseUrl @ ''/api/chat/'' @ param_text (Some ''12345678'')) None)
         (render chatSkeleton
            (renderHeader (''Chat with '' @ param_text (Some ''12345678'')) True (snd (?call ?w)))))"
    by blast
  from u n(2) have s: "renderChat (Some ''12345678'') ?v =
      (Pending,
       emit (Fetched ''GET'' (apiBaseUrl @ ''/api/chat/'' @ param_text (Some ''12345678'')) None)
         (render chatSkeleton
            (renderHeader (''Chat with '' @ param_text (Some ''12345678'')) True (snd (?call ?v)))))"
    by blast
  have 2: "fst (renderChat (Some ''12345678'') ?w) = Pending"
    unfolding r by simp
  have 3: "header (snd (renderChat (Some ''12345678'') ?w))
     = header (renderHeader ''Chat with 12345678'' True (initial []))"
    unfolding r by (simp add: render_def renderHeader_def emit_def Let_def param_text_def)
  have 4: "content (snd (renderChat (Some ''12345678'') ?w)) = chatSkeleton"
    unfolding r by (simp add: render_def emit_def)
  have 6: "content (snd (renderChat (Some ''12345678'') ?v)) = chatSkeleton"
    unfolding s by (simp add: render_def emit_def)
  show ?thesis using 1 2 3 4 5 6 by simp
qed

text \<open>
  When the lookup is rejected, \<open>apiFetch\<close> has assigned the error page before rethrowing.
  Only promise reactions stand between that assignment and the rendering of the chat
  header and skeleton, so the run never waits with the error page on the display: it is
  an event of the trace and no more.
\<close>

lemma lookup_failure_trace:
  "trace (snd (renderChat (Some ''12345678'')
      (initial [Reply \<lparr>status = 404, body_json = Inr (JObj [(''detail'', JStr ''not found'')])\<rparr>])))
     = [Invoked Chat [Some (JStr ''12345678'')],
        Fetched ''GET'' ''http://127.0.0.1:8000/api/profile/12345678'' None,
        HeaderSet (header (renderHeader ''Error'' False (initial []))),
        ContentSet (errorPageHtml ''API Error'' ''not found''),
        HeaderSet (header (renderHeader ''Chat with 12345678'' True (initial []))),
        ContentSet chatSkeleton,
        Fetched ''GET'' ''http://127.0.0.1:8000/api/chat/12345678'' None]"
  by code_simp

text \<open>
  Claim C8. When the trimmed text is not empty, the send handler disables the input,
  then posts the message; when the post succeeds, what follows is a complete run of
  \<open>renderChat\<close>. When the lookup and the conversation request of that run succeed too,
  the events are, in order: the input disabled, the POST, the view entered, the profile
  requested, the header and the skeleton rendered, the conversation requested, and the
  message area set to the bubbles of the messages that request returned.
\<close>

theorem send_reloads_chat:
  assumes "trim val \<noteq> []" and "network w = Reply r # rest" and "ok r"
    and "status r = 204 \<or> body_json r = Inr j"
  shows
    "sendClick uid val w =
       (Fulfilled (),
        snd (renderChat uid
          ((emit (Fetched ''POST'' (apiBaseUrl @ ''/api/message/'' @ param_text uid)
                   (Some (''{'' @ [CHR 0x22] @ ''text'' @ [CHR 0x22] @ '':'' @ json_quote (trim val) @ ''}'')))
              (emit InputDisabled w))\<lparr>network := rest\<rparr>))) \<and>
     (rest = Reply p # Reply c # rs \<and>
      ok p \<and> status p \<noteq> 204 \<and> body_json p = Inr (JObj pk) \<and>
      map_of pk ''username'' = Some (JStr u) \<and>
      ok c \<and> status c \<noteq> 204 \<and> body_json c = Inr (JObj ck) \<and>
      map_of ck ''messages'' = Some (JArr ms) \<and>
      map_all (bubbleHtml (currentUser w)) ms = Inr hs \<longrightarrow>
      trace (snd (sendClick uid val w)) =
        trace w @
        [InputDisabled,
         Fetched ''POST'' (apiBaseUrl @ ''/api/message/'' @ param_text uid)
           (Some (''{'' @ [CHR 0x22] @ ''text'' @ [CHR 0x22] @ '':'' @ json_quote (trim val) @ ''}'')),
         Invoked Chat [map_option JStr uid],
         Fetched ''GET'' (apiBaseUrl @ ''/api/profile/'' @ param_text uid) None,
         HeaderSet (header (renderHeader (''Chat with '' @ u) True w)),
         ContentSet chatSkeleton,
         Fetched ''GET'' (apiBaseUrl @ ''/api/chat/'' @ param_text uid) None,
         MessagesSet (concat hs)])"
proof -
  let ?posted = "(emit (Fetched ''POST'' (apiBaseUrl @ ''/api/message/'' @ param_text uid)
                   (Some (''{'' @ [CHR 0x22] @ ''text'' @ [CHR 0x22] @ '':'' @ json_quote (trim val) @ ''}'')))
              (emit InputDisabled w))\<lparr>network := rest\<rparr>"
  have 1: "sendClick uid val w = (Fulfilled (), snd (renderChat uid ?posted))"
    using assms by (rule sendClick_posted)
  have 2: "trace (snd (sendClick uid val w)) =
        trace w @
        [InputDisabled,
         Fetched ''POST'' (apiBaseUrl @ ''/api/message/'' @ param_text uid)
           (Some (''{'' @ [CHR 0x22] @ ''text'' @ [CHR 0x22] @ '':'' @ json_quote (trim val) @ ''}'')),
         Invoked Chat [map_option JStr uid],
         Fetched ''GET'' (apiBaseUrl @ ''/api/profile/'' @ param_text uid) None,
         HeaderSet (header (renderHeader (''Chat with '' @ u) True w)),
         ContentSet chatSkeleton,
         Fetched ''GET'' (apiBaseUrl @ ''/api/chat/'' @ param_text uid) None,
         MessagesSet (concat hs)]"
    if h: "rest = Reply p # Reply c # rs \<and>
      ok p \<and> status p \<noteq> 204 \<and> body_json p = Inr (JObj pk) \<and>
      map_of pk ''username'' = Some (JStr u) \<and>
      ok c \<and> status c \<noteq> 204 \<and> body_json c = Inr (JObj ck) \<and>
      map_of ck ''messages'' = Some (JArr ms) \<and>
      map_all (bubbleHtml (currentUser w)) ms = Inr hs"
  proof -
    have n: "network ?posted = Reply p # Reply c # rs"
      using h by simp
    have cu: "currentUser ?posted = currentUser w"
      by (simp add: emit_def)
    have m: "map_all (bubbleHtml (currentUser ?posted)) ms = Inr hs"
      using h cu by simp
    have "trace (snd (renderChat uid ?posted)) =
           trace ?posted @
           [Invoked Chat [map_option JStr uid],
            Fetched ''GET'' (apiBaseUrl @ ''/api/profile/'' @ param_text uid) None,
            HeaderSet (header (renderHeader (''Chat with '' @ u) True ?posted)),
            ContentSet chatSkeleton,
            Fetched ''GET'' (apiBaseUrl @ ''/api/chat/'' @ param_text uid) None,
            MessagesSet (concat hs)]"
      using renderChat_loaded[OF n _ _ _ _ _ _ _ _ m, of pk u ck uid] h by blast
    then show ?thesis
      unfolding 1 by (simp add: emit_def renderHeader_def Let_def)
  qed
  show ?thesis using 1 2 by blast
qed

theorem send_reloads_chat_witness:
  \<open>trace (snd (sendClick (Some ''22222222'') '' hello ''
      ((initial
         [Reply \<lparr>status = 204, body_json = Inl (JsSyntaxError ''Unexpected end of JSON input'')\<rparr>,
          Reply \<lparr>status = 200, body_json = Inr (JObj [(''username'', JStr ''bob'')])\<rparr>,
          Reply \<lparr>status = 200, body_json = Inr (JObj [(''messages'',
            JArr [JObj [(''sender_uid'', JStr ''11111111''), (''text'', JStr ''hello'')]])])\<rparr>])
       \<lparr>currentUser := JObj [(''unique_id'', JStr ''11111111'')]\<rparr>)))
   = [InputDisabled,
      Fetched ''POST'' ''http://127.0.0.1:8000/api/message/22222222'' (Some ''{"text":"hello"}''),
      Invoked Chat [Some (JStr ''22222222'')],
      Fetched ''GET'' ''http://127.0.0.1:8000/api/profile/22222222'' None,
      HeaderSet (header (renderHeader ''Chat with bob'' True (initial []))),
      ContentSet chatSkeleton,
      Fetched ''GET'' ''http://127.0.0.1:8000/api/chat/22222222'' None,
      MessagesSet ''<div class="chat-bubble sent">hello</div>'']\<close>
proof -
  let ?post = "\<lparr>status = 204, body_json = Inl (JsSyntaxError ''Unexpected end of JSON input'')\<rparr>"
  let ?prof = "\<lparr>status = 200, body_json = Inr (JObj [(''username'', JStr ''bob'')])\<rparr>"
  let ?msgs = "[JObj [(''sender_uid'', JStr ''11111111''), (''text'', JStr ''hello'')]]"
  let ?chat = "\<lparr>status = 200, body_json = Inr (JObj [(''messages'', JArr ?msgs)])\<rparr>"
  let ?w = "(initial [Reply ?post, Reply ?prof, Reply ?chat])
              \<lparr>currentUser := JObj [(''unique_id'', JStr ''11111111'')]\<rparr>"
  have t: "trim '' hello '' = ''hello''"
    by code_simp
  have h1: "trim '' hello '' \<noteq> []"
    by (simp add: t)
  have h2: "network ?w = Reply ?post # [Reply ?prof, Reply ?chat]"
    by (simp add: initial_def)
  have h3: "ok ?post"
    by (simp add: ok_def)
  have h4: "status ?post = 204 \<or> body_json ?post = Inr JNull"
    by simp
  have b: \<open>map_all (bubbleHtml (currentUser ?w)) ?msgs = Inr [''<div class="chat-bubble sent">hello</div>'']\<close>
    by code_simp
  have h5: "[Reply ?prof, Reply ?chat] = Reply ?prof # Reply ?chat # [] \<and>
      ok ?prof \<and> status ?prof \<noteq> 204 \<and> body_json ?prof = Inr (JObj [(''username'', JStr ''bob'')]) \<and>
      map_of [(''username'', JStr ''bob'')] ''username'' = Some (JStr ''bob'') \<and>
      ok ?chat \<and> status ?chat \<noteq> 204 \<and> body_json ?chat = Inr (JObj [(''messages'', JArr ?msgs)]) \<and>
      map_of [(''messages'', JArr ?msgs)] ''messages'' = Some (JArr ?msgs) \<and>
      map_all (bubbleHtml (currentUser ?w)) ?msgs = Inr [''<div class=\"chat-bubble sent\">hello</div>'']"
    using b by (simp add: ok_def)
  have q: \<open>json_quote ''hello'' = ''"hello"''\<close>
    by code_simp
  have hd: "header (renderHeader ''Chat with bob'' True ?w)
              = header (renderHeader ''Chat with bob'' True (initial []))"
    by (simp add: renderHeader_def emit_def Let_def)
  note s = send_reloads_chat[OF h1 h2 h3 h4, of "Some ''22222222''"]
  from s h5 have "trace (snd (sendClick (Some ''22222222'') '' hello '' ?w)) =
        trace ?w @
        [InputDisabled,
         Fetched ''POST'' (apiBaseUrl @ ''/api/message/'' @ param_text (Some ''22222222''))
           (Some (''{'' @ [CHR 0x22] @ ''text'' @ [CHR 0x22] @ '':'' @ json_quote (trim '' hello '') @ ''}'')),
         Invoked Chat [map_option JStr (Some ''22222222'')],
         Fetched ''GET'' (apiBaseUrl @ ''/api/profile/'' @ param_text (Some ''22222222'')) None,
         HeaderSet (header (renderHeader (''Chat with '' @ ''bob'') True ?w)),
         ContentSet chatSkeleton,
         Fetched ''GET'' (apiBaseUrl @ ''/api/chat/'' @ param_text (Some ''22222222'')) None,
         MessagesSet (concat [''<div class=\"chat-bubble sent\">hello</div>''])]"
    by blast
  then show ?thesis
    using hd by (simp add: t q param_text_def apiBaseUrl_def initial_def)
qed

text \<open>
  Claim C9. The send handler, the profile action handler and the request action handler
  leave the navigation stack as it was, whatever the outcome. When the request they send
  succeeds, each enters its view function once more (the chat, the profile, the
  requests): the view is rendered again with no entry pushed.
\<close>

theorem rerender_keeps_stack:
  "navigationStack (snd (sendClick partnerUid val w)) = navigationStack w \<and>
   navigationStack (snd (profileActionClick targetUid tag action w)) = navigationStack w \<and>
   navigationStack (snd (requestsClick tag action uid w)) = navigationStack w \<and>
   (network w = Reply r # rs \<and> ok r \<and> (status r = 204 \<or> body_json r = Inr j) \<longrightarrow>
      (trim val \<noteq> [] \<longrightarrow>
         invocations (snd (sendClick partnerUid val w)) = invocations w @ [Chat]) \<and>
      invocations (snd (profileActionClick targetUid ''BUTTON'' (Some a) w))
        = invocations w @ [Profile] \<and>
      (a \<noteq> [] \<longrightarrow>
         invocations (snd (requestsClick ''BUTTON'' (Some a) uid w)) = invocations w @ [Requests]))"
  using sendClick_invocations[of val w r rs j partnerUid]
    profileActionClick_invocations[of w r rs j targetUid a]
    requestsClick_invocations[of a w r rs j uid]
  by (simp add: sendClick_stack profileActionClick_stack requestsClick_stack)

theorem rerender_keeps_stack_witness:
  "navigationStack (snd (requestsClick ''BUTTON'' (Some ''accept_friend'') (Some ''12345678'')
      (navigateTo Requests []
        (startup [Reply \<lparr>status = 200, body_json = Inr (JObj [(''username'', JStr ''ann''),
                          (''unique_id'', JStr ''11111111'')])\<rparr>,
                  Reply \<lparr>status = 200, body_json = Inr (JObj [(''received'', JArr []),
                          (''sent'', JArr [])])\<rparr>,
                  Reply \<lparr>status = 204, body_json = Inl (JsSyntaxError ''Unexpected end of JSON input'')\<rparr>]))))
     = [(MainMenu, []), (Requests, [])] \<and>
   invocations (snd (requestsClick ''BUTTON'' (Some ''accept_friend'') (Some ''12345678'')
      (navigateTo Requests []
        (startup [Reply \<lparr>status = 200, body_json = Inr (JObj [(''username'', JStr ''ann''),
                          (''unique_id'', JStr ''11111111'')])\<rparr>,
                  Reply \<lparr>status = 200, body_json = Inr (JObj [(''received'', JArr []),
                          (''sent'', JArr [])])\<rparr>,
                  Reply \<lparr>status = 204, body_json = Inl (JsSyntaxError ''Unexpected end of JSON input'')\<rparr>]))))
     = [MainMenu, Requests, Requests] \<and>
   invocations (snd (sendClick (Some ''12345678'') ''hi''
      (navigateTo Requests []
        (startup [Reply \<lparr>status = 200, body_json = Inr (JObj [(''username'', JStr ''ann''),
                          (''unique_id'', JStr ''11111111'')])\<rparr>,
                  Reply \<lparr>status = 200, body_json = Inr (JObj [(''received'', JArr []),
                          (''sent'', JArr [])])\<rparr>,
                  Reply \<lparr>status = 204, body_json = Inl (JsSyntaxError ''Unexpected end of JSON input'')\<rparr>]))))
     = [MainMenu, Requests, Chat] \<and>
   invocations (snd (profileActionClick (Some ''12345678'') ''BUTTON'' (Some ''accept_friend'')
      (navigateTo Requests []
        (startup [Reply \<lparr>status = 200, body_json = Inr (JObj [(''username'', JStr ''ann''),
                          (''unique_id'', JStr ''11111111'')])\<rparr>,
                  Reply \<lparr>status = 200, body_json = Inr (JObj [(''received'', JArr []),
                          (''sent'', JArr [])])\<rparr>,
                  Reply \<lparr>status = 204, body_json = Inl (JsSyntaxError ''Unexpected end of JSON input'')\<rparr>]))))
     = [MainMenu, Requests, Profile]"
proof -
  let ?r = "\<lparr>status = 204, body_json = Inl (JsSyntaxError ''Unexpected end of JSON input'')\<rparr>"
  let ?w = "navigateTo Requests []
        (startup [Reply \<lparr>status = 200, body_json = Inr (JObj [(''username'', JStr ''ann''),
                          (''unique_id'', JStr ''11111111'')])\<rparr>,
                  Reply \<lparr>status = 200, body_json = Inr (JObj [(''received'', JArr []),
                          (''sent'', JArr [])])\<rparr>,
                  Reply ?r])"
  have n: "network ?w = Reply ?r # []"
    by code_simp
  have s: "navigationStack ?w = [(MainMenu, []), (Requests, [])]"
    by code_simp
  have i: "invocations ?w = [MainMenu, Requests]"
    by code_simp
  have h: "network ?w = Reply ?r # [] \<and> ok ?r \<and> (status ?r = 204 \<or> body_json ?r = Inr JNull)"
    using n by (simp add: ok_def)
  have a: "''accept_friend'' \<noteq> []"
    by simp
  have v: "trim ''hi'' \<noteq> []"
    by code_simp
  note t = rerender_keeps_stack[of "Some ''12345678''" "''hi''" ?w "Some ''12345678''" "''BUTTON''"
      "Some ''accept_friend''" "Some ''12345678''" ?r "[]" JNull "''accept_friend''"]
  from t have 1: "navigationStack (snd (requestsClick ''BUTTON'' (Some ''accept_friend'')
      (Some ''12345678'') ?w)) = navigationStack ?w"
    by blast
  from t h a have 2: "invocations (snd (requestsClick ''BUTTON'' (Some ''accept_friend'')
      (Some ''12345678'') ?w)) = invocations ?w @ [Requests]"
    by blast
  from t h v have 3: "invocations (snd (sendClick (Some ''12345678'') ''hi'' ?w))
      = invocations ?w @ [Chat]"
    by blast
  from t h have 4: "invocations (snd (profileActionClick (Some ''12345678'') ''BUTTON''
      (Some ''accept_friend'') ?w)) = invocations ?w @ [Profile]"
    by blast
  show ?thesis
    using 1 2 3 4 s i by simp
qed

text \<open>
  Claim C10. When the text of the message input trims to the empty string, as it does
  when it is empty or made of whitespace only, the send handler changes nothing: no
  request, no disabled input, no rendering.
\<close>

theorem blank_send_is_noop:
  "(trim val = [] \<longrightarrow> sendClick uid val w = (Fulfilled (), w)) \<and>
   (set ws \<subseteq> set whitespace \<longrightarrow>
      trim (concat ws) = [] \<and> sendClick uid (concat ws) w = (Fulfilled (), w))"
  by (simp add: sendClick_def Let_def return_def trim_whitespace_only)

theorem blank_send_is_noop_witness:
  "sendClick (Some ''12345678'') [] (startup []) = (Fulfilled (), startup []) \<and>
   sendClick (Some ''12345678'') [CHR 0x20, CHR 0x09, CHR 0x0A, CHR 0xC2, CHR 0xA0, CHR 0x20] (startup [])
     = (Fulfilled (), startup [])"
proof -
  have e: "trim [] = []"
    by code_simp
  have s: "set [[CHR 0x20], [CHR 0x09], [CHR 0x0A], [CHR 0xC2, CHR 0xA0], [CHR 0x20]] \<subseteq> set whitespace"
    by (simp add: whitespace_def)
  from blank_send_is_noop[of "[]" "Some ''12345678''" "startup []" "[]"] e
  have 1: "sendClick (Some ''12345678'') [] (startup []) = (Fulfilled (), startup [])"
    by blast
  from blank_send_is_noop[of "[]" "Some ''12345678''" "startup []"
      "[[CHR 0x20], [CHR 0x09], [CHR 0x0A], [CHR 0xC2, CHR 0xA0], [CHR 0x20]]"] s
  have 2: "sendClick (Some ''12345678'')
             (concat [[CHR 0x20], [CHR 0x09], [CHR 0x0A], [CHR 0xC2, CHR 0xA0], [CHR 0x20]]) (startup [])
           = (Fulfilled (), startup [])"
    by blast
  show ?thesis
    using 1 2 by simp
qed


end
